theory Spec2Isabelle
  imports Complex_Main "HOL-Library.AList"
begin

section \<open>hyperlearn2/base.py: memory guard and routine dispatch\<close>

text \<open>
  A shallow embedding of \<^verbatim>\<open>src/hyperlearn2/base.py\<close>. Python integers are \<open>int\<close>,
  exceptions are values of \<open>error\<close> on the left of a sum, a keyword dictionary is an
  association list in insertion order, and the objects the module handles (numpy arrays,
  matrices, booleans, other scalars) are values of \<open>pyval\<close>.
\<close>

subsection \<open>Values\<close>

text \<open>
  The numpy element types in native byte order that have the same width on every platform,
  the boolean type, and the fixed-length byte strings \<^verbatim>\<open>S<n>\<close> as the types that are
  not numerical.
\<close>

datatype dtype =
    NpBool
  | Int8 | Int16 | Int32 | Int64
  | UInt8 | UInt16 | UInt32 | UInt64
  | Float16 | Float32 | Float64
  | Complex64 | Complex128
  | NpBytes nat

text \<open>\<^verbatim>\<open>np.dtype(t).itemsize\<close>\<close>

fun itemsize :: "dtype \<Rightarrow> int" where
  "itemsize NpBool = 1"
| "itemsize Int8 = 1"
| "itemsize Int16 = 2"
| "itemsize Int32 = 4"
| "itemsize Int64 = 8"
| "itemsize UInt8 = 1"
| "itemsize UInt16 = 2"
| "itemsize UInt32 = 4"
| "itemsize UInt64 = 8"
| "itemsize Float16 = 2"
| "itemsize Float32 = 4"
| "itemsize Float64 = 8"
| "itemsize Complex64 = 8"
| "itemsize Complex128 = 16"
| "itemsize (NpBytes n) = int n"

text \<open>\<^verbatim>\<open>np.issubdtype(t, np.integer)\<close> and \<^verbatim>\<open>np.issubdtype(t, np.complexfloating)\<close>\<close>

fun is_integer :: "dtype \<Rightarrow> bool" where
  "is_integer Int8 = True"
| "is_integer Int16 = True"
| "is_integer Int32 = True"
| "is_integer Int64 = True"
| "is_integer UInt8 = True"
| "is_integer UInt16 = True"
| "is_integer UInt32 = True"
| "is_integer UInt64 = True"
| "is_integer _ = False"

fun is_complexfloating :: "dtype \<Rightarrow> bool" where
  "is_complexfloating Complex64 = True"
| "is_complexfloating Complex128 = True"
| "is_complexfloating _ = False"

text \<open>
  \<open>NdArray t shape\<close> is an object whose type is exactly \<^verbatim>\<open>np.ndarray\<close>, \<open>Matrix t n p\<close>
  one whose type is \<^verbatim>\<open>np.matrix\<close> (always two-dimensional). Element values are not
  part of the model.
\<close>

datatype pyval =
    PyNone
  | PyBool bool
  | PyInt int
  | PyStr string
  | NdArray dtype "int list"
  | Matrix dtype int int

text \<open>
  The text of the two \<^verbatim>\<open>MemoryError\<close>s of the wrapper is kept as data: \<open>Requires need free extra\<close>
  stands for "Operation requires need MB, but free MB is free, so an extra extra MB is
  required.", \<open>Exhausted\<close> for "Operation requires more memory than what the system resources
  offer.", and \<open>Message s\<close> for any other text. \<^verbatim>\<open>NameError\<close> and \<^verbatim>\<open>KeyError\<close> carry their text;
  the other exceptions are kept by class only.
\<close>

datatype memory_msg = Requires int int int | Exhausted | Message string

datatype error =
    IndexError
  | TypeError
  | AssertionError
  | KeyError string
  | NameError string
  | ValueError
  | AttributeError
  | StopIteration
  | OverflowError
  | MemoryError memory_msg
  | OtherError string

subsection \<open>Module constants\<close>

text \<open>
  \<^verbatim>\<open>_is64 = sys.maxsize > (1 << 32)\<close> and \<^verbatim>\<open>maxFloat = np.float64 if _is64 else np.float32\<close>.
  \<^verbatim>\<open>sys.maxsize\<close> belongs to the platform, so it is a parameter.
\<close>

definition is64 :: "int \<Rightarrow> bool" where
  "is64 maxsize = (maxsize > push_bit 32 1)"

definition maxFloat :: "int \<Rightarrow> dtype" where
  "maxFloat maxsize = (if is64 maxsize then Float64 else Float32)"

text \<open>
  Modelled from the spec: \<^verbatim>\<open>_min\<close> is imported from the module \<^verbatim>\<open>hyperlearn2/numba.py\<close>, which
  is not among the sources; the spec writes the pattern \<^verbatim>\<open>full\<close> as \<open>n*p + min(n\<^sup>2, p\<^sup>2)\<close>.
\<close>

definition numba_min :: "int \<Rightarrow> int \<Rightarrow> int" where
  "numba_min a b = min a b"

text \<open>The five lambdas of the table \<^verbatim>\<open>memory_usage\<close>, and the table.\<close>

definition usage_full :: "int \<Rightarrow> int \<Rightarrow> int" where
  "usage_full n p = n * p + numba_min (n ^ 2) (p ^ 2)"

definition usage_same :: "int \<Rightarrow> int \<Rightarrow> int" where
  "usage_same n p = n * p"

definition usage_triu :: "int \<Rightarrow> int \<Rightarrow> int" where
  "usage_triu n p = (if p < n then p ^ 2 else n * p)"

definition usage_squared :: "int \<Rightarrow> int \<Rightarrow> int" where
  "usage_squared n p = n ^ 2"

definition usage_columns :: "int \<Rightarrow> int \<Rightarrow> int" where
  "usage_columns n p = p"

definition memory_usage :: "(string \<times> (int \<Rightarrow> int \<Rightarrow> int)) list" where
  "memory_usage =
     [(''full'', usage_full), (''same'', usage_same), (''triu'', usage_triu),
      (''squared'', usage_squared), (''columns'', usage_columns)]"

definition f_same_memory :: "int \<Rightarrow> int \<Rightarrow> int" where
  "f_same_memory = usage_same"

subsection \<open>memory\<close>

text \<open>
  \<^verbatim>\<open>np.dtype(None)\<close> is numpy's default type \<^verbatim>\<open>float64\<close>; the wrapper passes \<^verbatim>\<open>None\<close> when the
  primary array was not classified.
\<close>

definition np_dtype :: "dtype option \<Rightarrow> dtype" where
  "np_dtype d = (case d of None \<Rightarrow> Float64 | Some t \<Rightarrow> t)"

text \<open>
  \<^verbatim>\<open>memcheck(*shape)\<close> calls a function of two arguments: a shape that does not have two
  entries after the normalisation of the one-dimensional case is a \<^verbatim>\<open>TypeError\<close>.
\<close>

definition memory :: "int list \<Rightarrow> dtype option \<Rightarrow> (int \<Rightarrow> int \<Rightarrow> int) option \<Rightarrow> error + int" where
  "memory shape dt memcheck =
     (case memcheck of
        None \<Rightarrow> Inr 0
      | Some mc \<Rightarrow>
          (let byte = itemsize (np_dtype dt);
               shape' = (if length shape = 1 then [1, shape ! 0] else shape)
           in case shape' of
                [n, p] \<Rightarrow> (let multiplier = mc n p; need = drop_bit 20 (multiplier * byte)
                           in Inr need)
              | _ \<Rightarrow> Inl TypeError))"

subsection \<open>arg\_process\<close>

text \<open>
  The second component of the result of \<^verbatim>\<open>arg_process\<close> is \<^verbatim>\<open>False\<close> (no conversion needed),
  a numpy type (convert to it) or \<^verbatim>\<open>None\<close> (not classified).
\<close>

datatype target = DtFalse | DtType dtype | DtNone

definition arg_process :: "int \<Rightarrow> pyval \<Rightarrow> bool \<Rightarrow> error + (int \<times> target)" where
  "arg_process maxsize x square =
     (case x of
        NdArray dtype shape \<Rightarrow>
          if length shape > 1 then
            if square \<and> shape ! 0 \<noteq> shape ! 1 then Inl AssertionError
            else if dtype = Float32 \<or> dtype = maxFloat maxsize \<or> is_complexfloating dtype
              then Inr (0, DtFalse)
            else
              (case (if is_integer dtype
                       then Inr (if dtype = UInt64 \<or> dtype = Int64
                                 then maxFloat maxsize else Float32)
                     else if dtype = Float16 then Inr Float32
                     else Inl TypeError) of
                 Inl e \<Rightarrow> Inl e
               | Inr dt \<Rightarrow>
                   if dt \<noteq> dtype
                   then (case memory shape (Some dt) (Some f_same_memory) of
                           Inl e \<Rightarrow> Inl e
                         | Inr n \<Rightarrow> Inr (n, DtType dt))
                   else Inr (0, DtNone))
          else Inr (0, DtNone)
      | _ \<Rightarrow> Inr (0, DtNone))"

subsection \<open>The memory budget\<close>

text \<open>
  \<^verbatim>\<open>free = int(virtual_memory().available * MAX_MEMORY) >> 20\<close> multiplies a Python integer
  by the double \<^verbatim>\<open>MAX_MEMORY = 0.94\<close>. A non-negative finite double is a pair \<open>(m, e)\<close>
  with value \<open>m * 2 ^ e\<close>; every operation rounds to 53 significant bits, to nearest with
  ties to even, as IEEE 754 arithmetic does.
\<close>

type_synonym pyfloat = "int \<times> int"

function bit_length :: "int \<Rightarrow> nat" where
  "bit_length n = (if n \<le> 0 then 0 else Suc (bit_length (n div 2)))"
  by pat_completeness auto
termination
  by (relation "measure nat") auto

declare bit_length.simps [simp del]

definition round53 :: "pyfloat \<Rightarrow> pyfloat" where
  "round53 x =
     (case x of (m, e) \<Rightarrow>
        if bit_length \<bar>m\<bar> \<le> 53 then (m, e)
        else
          (let s = bit_length \<bar>m\<bar> - 53;
               q = \<bar>m\<bar> div 2 ^ s;
               r = \<bar>m\<bar> mod 2 ^ s;
               half = 2 ^ (s - 1)
           in (sgn m * (if r > half \<or> (r = half \<and> odd q) then q + 1 else q), e + int s)))"

text \<open>The double nearest to 0.94 is \<open>2116691824864133 / 2 ^ 51\<close>.\<close>

definition MAX_MEMORY :: pyfloat where
  "MAX_MEMORY = (2116691824864133, - 51)"

text \<open>
  \<^verbatim>\<open>float(n)\<close> for an integer \<open>n\<close>: an integer that rounds to \<open>2 ^ 1024\<close> or more in absolute
  value is too large for a double, which is an \<^verbatim>\<open>OverflowError\<close>.
\<close>

definition float_of_int :: "int \<Rightarrow> error + pyfloat" where
  "float_of_int n =
     (case round53 (n, 0) of (m, e) \<Rightarrow>
        if int (bit_length \<bar>m\<bar>) + e > 1024 then Inl OverflowError else Inr (m, e))"

definition float_mul :: "pyfloat \<Rightarrow> pyfloat \<Rightarrow> pyfloat" where
  "float_mul x y = (case x of (m1, e1) \<Rightarrow> case y of (m2, e2) \<Rightarrow> round53 (m1 * m2, e1 + e2))"

text \<open>\<^verbatim>\<open>int(x)\<close> truncates towards zero.\<close>

definition int_of_float :: "pyfloat \<Rightarrow> int" where
  "int_of_float x =
     (case x of (m, e) \<Rightarrow>
        if e \<ge> 0 then m * 2 ^ nat e else sgn m * (\<bar>m\<bar> div 2 ^ nat (- e)))"

text \<open>The argument is \<^verbatim>\<open>virtual_memory().available\<close>, a number of bytes.\<close>

definition free_memory :: "int \<Rightarrow> error + int" where
  "free_memory available =
     (case float_of_int available of
        Inl e \<Rightarrow> Inl e
      | Inr a \<Rightarrow> Inr (drop_bit 20 (int_of_float (float_mul a MAX_MEMORY))))"

subsection \<open>process: configuration and decoration\<close>

text \<open>
  The argument \<^verbatim>\<open>memcheck\<close> of \<^verbatim>\<open>process\<close> is \<^verbatim>\<open>None\<close>, a string, a dictionary or (as the
  docstring allows) a function. The values of the dictionary are names of usage patterns
  before lines 97 to 105 have run and functions afterwards.
\<close>

datatype usage_val = UName string | UFn "int \<Rightarrow> int \<Rightarrow> int"

datatype memcheck_arg =
    McNone
  | McStr string
  | McDict "(string \<times> usage_val) list"
  | McFn "int \<Rightarrow> int \<Rightarrow> int"

type_synonym kwargs = "(string \<times> pyval) list"

text \<open>
  A Python function as the wrapper sees it: the names of \<^verbatim>\<open>signature(f).parameters\<close>, the text
  of \<^verbatim>\<open>signature(f)\<close>, and what a call with positional and keyword arguments does.
\<close>

record 'r pyfunction =
  parameters :: "string list"
  signature_text :: string
  body :: "pyval list \<Rightarrow> kwargs \<Rightarrow> error + 'r"

text \<open>Lines 101 to 105: every value is looked up in \<^verbatim>\<open>memory_usage\<close>; any failure is a \<^verbatim>\<open>KeyError\<close>.\<close>

fun convert_usage :: "(string \<times> usage_val) list \<Rightarrow> error + (string \<times> usage_val) list" where
  "convert_usage [] = Inr []"
| "convert_usage ((key, v) # rest) =
     (case (case v of UName s \<Rightarrow> map_of memory_usage s | UFn g \<Rightarrow> None) of
        None \<Rightarrow> Inl (KeyError (''Memory usage argument for '' @ key @ '' not recognised.''))
      | Some g \<Rightarrow>
          (case convert_usage rest of
             Inl e \<Rightarrow> Inl e
           | Inr rest' \<Rightarrow> Inr ((key, UFn g) # rest')))"

definition process_memcheck :: "memcheck_arg \<Rightarrow> error + memcheck_arg" where
  "process_memcheck mc =
     (case mc of
        McNone \<Rightarrow> Inr McNone
      | McStr s \<Rightarrow>
          (case convert_usage [(''X'', UName s)] of Inl e \<Rightarrow> Inl e | Inr d \<Rightarrow> Inr (McDict d))
      | McDict d \<Rightarrow>
          (case convert_usage d of Inl e \<Rightarrow> Inl e | Inr d' \<Rightarrow> Inr (McDict d'))
      | McFn g \<Rightarrow> Inr (McFn g))"

text \<open>What the closure \<^verbatim>\<open>wrapper\<close> captures (lines 109 to 112 and the arguments of \<^verbatim>\<open>process\<close>).\<close>

record 'r guard =
  memcheck :: "(string \<times> usage_val) list"
  memory_length :: int
  memory_keys :: "string list"
  function_signature :: string
  function_args :: "string list"
  wrapped :: "pyval list \<Rightarrow> kwargs \<Rightarrow> error + 'r"
  square :: bool

text \<open>
  \<^verbatim>\<open>decorate\<close>: line 109 takes \<^verbatim>\<open>len(memcheck)\<close>, which is a \<^verbatim>\<open>TypeError\<close> for \<^verbatim>\<open>None\<close> and for a
  function; a string has a length but no \<^verbatim>\<open>keys\<close> (line 110).
\<close>

definition decorate :: "memcheck_arg \<Rightarrow> bool \<Rightarrow> 'r pyfunction \<Rightarrow> error + 'r guard" where
  "decorate mc sq f =
     (case mc of
        McNone \<Rightarrow> Inl TypeError
      | McFn g \<Rightarrow> Inl TypeError
      | McStr s \<Rightarrow> Inl AttributeError
      | McDict d \<Rightarrow>
          Inr \<lparr> memcheck = d, memory_length = int (length d), memory_keys = map fst d,
                function_signature = signature_text f, function_args = parameters f,
                wrapped = body f, square = sq \<rparr>)"

definition process :: "'r pyfunction \<Rightarrow> memcheck_arg \<Rightarrow> bool \<Rightarrow> error + 'r guard" where
  "process f mc sq =
     (case process_memcheck mc of
        Inl e \<Rightarrow> Inl e
      | Inr mc' \<Rightarrow> decorate mc' sq f)"

subsection \<open>wrapper\<close>

text \<open>
  The local variables of \<^verbatim>\<open>wrapper\<close>. \<^verbatim>\<open>args\<close> is the tuple of positional arguments, so the
  statements that assign to one of its items or delete one raise \<^verbatim>\<open>TypeError\<close>.
\<close>

record frame =
  args :: "pyval list"
  kwargs :: kwargs
  X :: pyval
  otherYes :: int
  duplicate :: "bool list"
  need :: int
  new_dtypes :: "target list"
  X_dtype :: "dtype option"

definition tuple_setitem :: "pyval list \<Rightarrow> nat \<Rightarrow> pyval \<Rightarrow> error + pyval list" where
  "tuple_setitem t i v = Inl TypeError"

definition tuple_delitem :: "pyval list \<Rightarrow> nat \<Rightarrow> error + pyval list" where
  "tuple_delitem t i = Inl TypeError"

definition and_then :: "error + 'a \<Rightarrow> ('a \<Rightarrow> error + 'b) \<Rightarrow> error + 'b" where
  "and_then m k = (case m of Inl e \<Rightarrow> Inl e | Inr x \<Rightarrow> k x)"

text \<open>\<^verbatim>\<open>x.A1 if x.shape[0] == 1 else x.A\<close>\<close>

definition matrix_to_array :: "dtype \<Rightarrow> int \<Rightarrow> int \<Rightarrow> pyval" where
  "matrix_to_array t n p = (if n = 1 then NdArray t [p] else NdArray t [n, p])"

text \<open>Lines 116 to 138.\<close>

definition check_arguments :: "'r guard \<Rightarrow> frame \<Rightarrow> error + frame" where
  "check_arguments g s =
     (let no_args = length (function_args g);
          l = length (args s);
          L = length (kwargs s);
          size = l + L
      in if size = 0 \<or> l = 0 then Inl IndexError
         else if size > no_args then Inl IndexError
         else
           (case args s ! 0 of
              Matrix t n p \<Rightarrow>
                (case tuple_setitem (args s) 0 (matrix_to_array t n p) of
                   Inl e \<Rightarrow> Inl e
                 | Inr a \<Rightarrow> Inr (s\<lparr>args := a, X := matrix_to_array t n p\<rparr>))
            | NdArray t sh \<Rightarrow> Inr (s\<lparr>X := NdArray t sh\<rparr>)
            | _ \<Rightarrow> Inl IndexError))"

text \<open>
  Lines 141 to 148: a positional boolean at position \<open>i\<close> is stored under \<^verbatim>\<open>memory_keys[i]\<close>,
  which is an \<^verbatim>\<open>IndexError\<close> when there are not that many keys.
\<close>

fun scan_booleans :: "string list \<Rightarrow> nat \<Rightarrow> pyval list \<Rightarrow> frame \<Rightarrow> error + frame" where
  "scan_booleans keys i [] s = Inr s"
| "scan_booleans keys i (x # xs) s =
     (case x of
        PyBool b \<Rightarrow>
          if i < length keys
          then scan_booleans keys (Suc i) xs
                 (s\<lparr>kwargs := AList.update (keys ! i) (PyBool b) (kwargs s),
                    otherYes := otherYes s + (if b then 1 else 0),
                    duplicate := (duplicate s)[i := True]\<rparr>)
          else Inl IndexError
      | _ \<Rightarrow> scan_booleans keys (Suc i) xs s)"

text \<open>
  Lines 151 to 159. Only the second of the two adjacent string literals of the message is an
  f-string, so the first is taken as it stands.
\<close>

definition name_error_message :: "string \<Rightarrow> string" where
  "name_error_message sig =
     ''Argument '{x}' is not recognised in function. '' @
     ''Function accepted signature is '' @ sig @ ''.''"

fun check_names :: "'r guard \<Rightarrow> kwargs \<Rightarrow> int \<Rightarrow> error + int" where
  "check_names g [] oy = Inr oy"
| "check_names g ((x, t) # rest) oy =
     (if x \<in> set (function_args g)
      then check_names g rest (case t of PyBool b \<Rightarrow> oy + (if b then 1 else 0) | _ \<Rightarrow> oy)
      else Inl (NameError (name_error_message (function_signature g))))"

text \<open>Lines 162 to 169.\<close>

definition set_all_False :: "kwargs \<Rightarrow> kwargs" where
  "set_all_False kw = map (\<lambda>(i, t). (i, case t of PyBool b \<Rightarrow> PyBool False | _ \<Rightarrow> t)) kw"

definition update_X :: "'r guard \<Rightarrow> frame \<Rightarrow> frame" where
  "update_X g s =
     (if otherYes s = memory_length g - 1 \<or> otherYes s = 0
      then s\<lparr>kwargs := AList.update ''X'' (PyBool True) (set_all_False (kwargs s))\<rparr>
      else s\<lparr>kwargs := AList.update ''X'' (PyBool False) (kwargs s)\<rparr>)"

text \<open>Lines 172 to 176.\<close>

fun leftovers :: "string list \<Rightarrow> kwargs \<Rightarrow> kwargs" where
  "leftovers [] kw = kw"
| "leftovers (x # xs) kw =
     leftovers xs (case map_of kw x of None \<Rightarrow> AList.update x (PyBool False) kw | Some i \<Rightarrow> kw)"

text \<open>
  Lines 182 to 196. At position 0 the result \<^verbatim>\<open>False\<close> of \<^verbatim>\<open>arg_process\<close> is replaced by \<^verbatim>\<open>None\<close>
  and \<^verbatim>\<open>X_dtype\<close> becomes the type of the array; any other result is \<^verbatim>\<open>X_dtype\<close> itself.
\<close>

definition dtype_of :: "pyval \<Rightarrow> error + dtype" where
  "dtype_of x =
     (case x of NdArray t sh \<Rightarrow> Inr t | Matrix t n p \<Rightarrow> Inr t | _ \<Rightarrow> Inl AttributeError)"

definition type_of_target :: "target \<Rightarrow> dtype option" where
  "type_of_target d = (case d of DtType t \<Rightarrow> Some t | _ \<Rightarrow> None)"

fun classify_args :: "int \<Rightarrow> bool \<Rightarrow> nat list \<Rightarrow> frame \<Rightarrow> error + frame" where
  "classify_args maxsize sq [] s = Inr s"
| "classify_args maxsize sq (i # is) s =
     and_then
       (case args s ! i of
          Matrix t n p \<Rightarrow>
            if i \<noteq> 0
            then and_then (tuple_setitem (args s) i (matrix_to_array t n p))
                   (\<lambda>a. Inr (s\<lparr>args := a\<rparr>))
            else Inr s
        | _ \<Rightarrow> Inr s)
       (\<lambda>s1. and_then (arg_process maxsize (args s1 ! i) sq)
          (\<lambda>(n, dtype).
             and_then
               (if i = 0
                then (if dtype = DtFalse
                      then and_then (dtype_of (args s1 ! i))
                             (\<lambda>t. Inr (s1\<lparr>X_dtype := Some t\<rparr>, DtNone))
                      else Inr (s1\<lparr>X_dtype := type_of_target dtype\<rparr>, dtype))
                else Inr (s1, dtype))
               (\<lambda>(s2, dtype2).
                  classify_args maxsize sq is
                    (s2\<lparr>need := need s2 + n, new_dtypes := new_dtypes s2 @ [dtype2]\<rparr>))))"

text \<open>
  Lines 198 to 205: the keyword values in the order of the dictionary; a matrix is replaced
  by its array under the same key.
\<close>

fun classify_kwargs :: "int \<Rightarrow> bool \<Rightarrow> string list \<Rightarrow> frame \<Rightarrow> error + frame" where
  "classify_kwargs maxsize sq [] s = Inr s"
| "classify_kwargs maxsize sq (i # is) s =
     (case map_of (kwargs s) i of
        None \<Rightarrow> Inl (KeyError i)
      | Some x0 \<Rightarrow>
          (let s1 = (case x0 of
                       Matrix t n p \<Rightarrow>
                         s\<lparr>kwargs := AList.update i (matrix_to_array t n p) (kwargs s)\<rparr>
                     | _ \<Rightarrow> s);
               x = (case x0 of Matrix t n p \<Rightarrow> matrix_to_array t n p | _ \<Rightarrow> x0)
           in and_then (arg_process maxsize x sq)
                (\<lambda>(n, dtype).
                   classify_kwargs maxsize sq is
                     (s1\<lparr>need := need s1 + n, new_dtypes := new_dtypes s1 @ [dtype]\<rparr>))))"

text \<open>
  Lines 209 to 213. \<^verbatim>\<open>kwargs[i] == True\<close> holds for \<^verbatim>\<open>True\<close> and for the integer 1. For an array the
  comparison is made element by element and line 211 takes the truth value of the result:
  with more than one element that is a \<^verbatim>\<open>ValueError\<close>; with one element or none it depends
  on the element and on the version of numpy, neither of which is part of the model, so
  the outcome is left unspecified.
\<close>

definition array_eq_True :: "int list \<Rightarrow> error + bool" where
  "array_eq_True shape = (if prod_list shape > 1 then Inl ValueError else undefined)"

definition py_eq_True :: "pyval \<Rightarrow> error + bool" where
  "py_eq_True v =
     (case v of
        PyBool b \<Rightarrow> Inr b
      | PyInt k \<Rightarrow> Inr (k = 1)
      | NdArray t sh \<Rightarrow> array_eq_True sh
      | Matrix t n p \<Rightarrow> array_eq_True [n, p]
      | _ \<Rightarrow> Inr False)"

definition shape_of :: "pyval \<Rightarrow> error + int list" where
  "shape_of x =
     (case x of NdArray t sh \<Rightarrow> Inr sh | Matrix t n p \<Rightarrow> Inr [n, p] | _ \<Rightarrow> Inl AttributeError)"

fun primary_cost :: "'r guard \<Rightarrow> int list \<Rightarrow> string list \<Rightarrow> frame \<Rightarrow> error + frame" where
  "primary_cost g shape [] s = Inr s"
| "primary_cost g shape (i # is) s =
     (case map_of (kwargs s) i of
        None \<Rightarrow> Inl (KeyError i)
      | Some v \<Rightarrow>
          and_then (py_eq_True v)
            (\<lambda>b. if b
                  then (case map_of (memcheck g) i of
                          None \<Rightarrow> Inl (KeyError i)
                        | Some (UName u) \<Rightarrow> Inl TypeError
                        | Some (UFn mc) \<Rightarrow>
                            and_then (memory shape (X_dtype s) (Some mc))
                              (\<lambda>n. Inr (s\<lparr>need := need s + n\<rparr>)))
                  else primary_cost g shape is s))"

text \<open>Lines 216 to 220.\<close>

definition confirm_memory :: "int \<Rightarrow> frame \<Rightarrow> error + frame" where
  "confirm_memory available s =
     (if need s > 0
      then and_then (free_memory available)
             (\<lambda>free. if need s > free
                      then Inl (MemoryError (Requires (need s) free (need s - free)))
                      else Inr s)
      else Inr s)"

text \<open>
  Lines 223 to 233. \<^verbatim>\<open>astype(False)\<close> is a \<^verbatim>\<open>TypeError\<close>: \<^verbatim>\<open>False\<close> is not a data type.
  \<^verbatim>\<open>astype(None)\<close> would give numpy's default type.
\<close>

definition astype :: "pyval \<Rightarrow> target \<Rightarrow> error + pyval" where
  "astype x dtype =
     (case x of
        NdArray t sh \<Rightarrow>
          (case dtype of
             DtFalse \<Rightarrow> Inl TypeError
           | DtType d \<Rightarrow> Inr (NdArray d sh)
           | DtNone \<Rightarrow> Inr (NdArray Float64 sh))
      | Matrix t n p \<Rightarrow>
          (case dtype of
             DtFalse \<Rightarrow> Inl TypeError
           | DtType d \<Rightarrow> Inr (Matrix d n p)
           | DtNone \<Rightarrow> Inr (Matrix Float64 n p))
      | _ \<Rightarrow> Inl AttributeError)"

fun convert_args :: "nat list \<Rightarrow> frame \<Rightarrow> error + frame" where
  "convert_args [] s = Inr s"
| "convert_args (i # is) s =
     (let dtype = new_dtypes s ! i
      in if dtype \<noteq> DtNone
         then and_then (astype (args s ! i) dtype)
                (\<lambda>v. and_then (tuple_setitem (args s) i v)
                   (\<lambda>a. convert_args is (s\<lparr>args := a\<rparr>)))
         else convert_args is s)"

fun convert_kwargs :: "nat \<Rightarrow> string list \<Rightarrow> frame \<Rightarrow> error + frame" where
  "convert_kwargs arg [] s = Inr s"
| "convert_kwargs arg (i # is) s =
     (let dtype = new_dtypes s ! arg
      in if dtype \<noteq> DtNone
         then (case map_of (kwargs s) i of
                 None \<Rightarrow> Inl (KeyError i)
               | Some x \<Rightarrow>
                   and_then (astype x dtype)
                     (\<lambda>v. convert_kwargs (Suc arg) is
                        (s\<lparr>kwargs := AList.update i v (kwargs s)\<rparr>)))
         else convert_kwargs (Suc arg) is s)"

text \<open>Lines 236 to 241: \<open>l\<close> runs from \<^verbatim>\<open>len(args) - 1\<close> down to 1.\<close>

fun delete_duplicates :: "nat \<Rightarrow> frame \<Rightarrow> error + frame" where
  "delete_duplicates 0 s = Inr s"
| "delete_duplicates (Suc l) s =
     (if duplicate s ! Suc l
      then and_then (tuple_delitem (args s) (Suc l))
             (\<lambda>a. delete_duplicates l (s\<lparr>args := a\<rparr>))
      else delete_duplicates l s)"

definition clean_up :: "frame \<Rightarrow> error + frame" where
  "clean_up s =
     and_then (delete_duplicates (length (args s) - 1) s)
       (\<lambda>s1. case map_of (kwargs s1) ''X'' of
                None \<Rightarrow> Inl (KeyError ''X'')
              | Some v \<Rightarrow> Inr (s1\<lparr>kwargs := AList.delete ''X'' (kwargs s1)\<rparr>))"

text \<open>Lines 244 to 248.\<close>

definition execute :: "'r guard \<Rightarrow> frame \<Rightarrow> error + 'r" where
  "execute g s =
     (case wrapped g (args s) (kwargs s) of
        Inl (MemoryError m) \<Rightarrow> Inl (MemoryError Exhausted)
      | r \<Rightarrow> r)"

text \<open>
  The wrapper, cut where the claims look at it: after the names have been checked (line 159),
  after the flags have been resolved (line 176), after the arguments have been classified
  (line 205, which \<open>wrapper_need\<close> passes through), after the requirement has been added up
  (line 213), after the memory check (line 220), before the call (line 241), and whole.
\<close>

definition enter :: "pyval list \<Rightarrow> kwargs \<Rightarrow> frame" where
  "enter a kw =
     \<lparr> args = a, kwargs = kw, X = PyNone, otherYes = 0, duplicate = [], need = 0,
       new_dtypes = [], X_dtype = None \<rparr>"

definition wrapper_names :: "'r guard \<Rightarrow> pyval list \<Rightarrow> kwargs \<Rightarrow> error + frame" where
  "wrapper_names g a kw =
     and_then (check_arguments g (enter a kw))
       (\<lambda>s. and_then
               (scan_booleans (memory_keys g) 0 (args s)
                  (s\<lparr>otherYes := 0, duplicate := replicate (length (args s)) False\<rparr>))
          (\<lambda>s1. and_then (check_names g (kwargs s1) (otherYes s1))
             (\<lambda>oy. Inr (s1\<lparr>otherYes := oy\<rparr>))))"

definition wrapper_flags :: "'r guard \<Rightarrow> pyval list \<Rightarrow> kwargs \<Rightarrow> error + frame" where
  "wrapper_flags g a kw =
     and_then (wrapper_names g a kw)
       (\<lambda>s. let s1 = update_X g s
             in Inr (s1\<lparr>kwargs := leftovers (memory_keys g) (kwargs s1)\<rparr>))"

definition wrapper_need :: "int \<Rightarrow> 'r guard \<Rightarrow> pyval list \<Rightarrow> kwargs \<Rightarrow> error + frame" where
  "wrapper_need maxsize g a kw =
     and_then (wrapper_flags g a kw)
       (\<lambda>s. and_then
               (classify_args maxsize (square g) [0 ..< length (args s)]
                  (s\<lparr>need := 0, new_dtypes := []\<rparr>))
          (\<lambda>s1. and_then (classify_kwargs maxsize (square g) (map fst (kwargs s1)) s1)
             (\<lambda>s2. and_then (shape_of (X s2))
                (\<lambda>shape. primary_cost g shape (memory_keys g) s2))))"

definition wrapper_classified :: "int \<Rightarrow> 'r guard \<Rightarrow> pyval list \<Rightarrow> kwargs \<Rightarrow> error + frame" where
  "wrapper_classified maxsize g a kw =
     and_then (wrapper_flags g a kw)
       (\<lambda>s. and_then
               (classify_args maxsize (square g) [0 ..< length (args s)]
                  (s\<lparr>need := 0, new_dtypes := []\<rparr>))
          (\<lambda>s1. classify_kwargs maxsize (square g) (map fst (kwargs s1)) s1))"

definition wrapper_admit ::
  "int \<Rightarrow> 'r guard \<Rightarrow> int \<Rightarrow> pyval list \<Rightarrow> kwargs \<Rightarrow> error + frame" where
  "wrapper_admit maxsize g available a kw =
     and_then (wrapper_need maxsize g a kw) (confirm_memory available)"

definition wrapper_prepare ::
  "int \<Rightarrow> 'r guard \<Rightarrow> int \<Rightarrow> pyval list \<Rightarrow> kwargs \<Rightarrow> error + frame" where
  "wrapper_prepare maxsize g available a kw =
     and_then (wrapper_admit maxsize g available a kw)
       (\<lambda>s. and_then (convert_args [0 ..< length (args s)] s)
          (\<lambda>s1. and_then (convert_kwargs (length (args s1)) (map fst (kwargs s1)) s1)
             clean_up))"

definition wrapper ::
  "int \<Rightarrow> 'r guard \<Rightarrow> int \<Rightarrow> pyval list \<Rightarrow> kwargs \<Rightarrow> error + 'r" where
  "wrapper maxsize g available a kw =
     and_then (wrapper_prepare maxsize g available a kw) (execute g)"

text \<open>
  Decorating and calling in one step, as in
  \<^verbatim>\<open>process(f, memcheck, square)(*a, **kw)\<close>: the whole call, the call up to the memory check,
  and the keyword dictionary after the flags have been resolved.
\<close>

definition guarded_call ::
  "int \<Rightarrow> 'r pyfunction \<Rightarrow> memcheck_arg \<Rightarrow> bool \<Rightarrow> int \<Rightarrow> pyval list \<Rightarrow> kwargs \<Rightarrow> error + 'r" where
  "guarded_call maxsize f mc sq available a kw =
     and_then (process f mc sq) (\<lambda>g. wrapper maxsize g available a kw)"

definition guarded_admit ::
  "int \<Rightarrow> 'r pyfunction \<Rightarrow> memcheck_arg \<Rightarrow> bool \<Rightarrow> int \<Rightarrow> pyval list \<Rightarrow> kwargs \<Rightarrow> error + frame" where
  "guarded_admit maxsize f mc sq available a kw =
     and_then (process f mc sq) (\<lambda>g. wrapper_admit maxsize g available a kw)"

definition guarded_flags ::
  "'r pyfunction \<Rightarrow> memcheck_arg \<Rightarrow> bool \<Rightarrow> pyval list \<Rightarrow> kwargs \<Rightarrow> error + kwargs" where
  "guarded_flags f mc sq a kw =
     and_then (process f mc sq)
       (\<lambda>g. and_then (wrapper_flags g a kw) (\<lambda>s. Inr (kwargs s)))"

text \<open>The flags that hold \<^verbatim>\<open>True\<close>, in the order of the declared keys.\<close>

definition true_flags :: "string list \<Rightarrow> kwargs \<Rightarrow> string list" where
  "true_flags keys kw = filter (\<lambda>k. map_of kw k = Some (PyBool True)) keys"

text \<open>
  \<^verbatim>\<open>type(x) == bool\<close>, and the number of keyword arguments that are \<^verbatim>\<open>True\<close>.
\<close>

definition is_bool :: "pyval \<Rightarrow> bool" where
  "is_bool v = (case v of PyBool b \<Rightarrow> True | _ \<Rightarrow> False)"

definition count_True :: "kwargs \<Rightarrow> int" where
  "count_True kw = int (length (filter (\<lambda>(k, t). t = PyBool True) kw))"

text \<open>A function with the given parameters that returns the arguments it was called with.\<close>

definition echo :: "string list \<Rightarrow> string \<Rightarrow> (pyval list \<times> kwargs) pyfunction" where
  "echo ps sig = \<lparr> parameters = ps, signature_text = sig, body = (\<lambda>a kw. Inr (a, kw)) \<rparr>"

text \<open>Python's \<^verbatim>\<open>sub in text\<close> for strings.\<close>

fun str_contains :: "string \<Rightarrow> string \<Rightarrow> bool" where
  "str_contains sub [] = (sub = [])"
| "str_contains sub (c # cs) = (take (length sub) (c # cs) = sub \<or> str_contains sub cs)"

subsection \<open>lapack\<close>

text \<open>
  An object of the class \<^verbatim>\<open>lapack\<close>. The attribute \<^verbatim>\<open>f\<close> is \<^verbatim>\<open>None\<close>, the name that line 290, 292,
  294 or 296 has stored before line 297 evaluates it, or a routine. The modules \<^verbatim>\<open>_lapack\<close>
  and \<^verbatim>\<open>_numba\<close> are not part of the sources: they are parameters, maps from attribute names
  to routines, and evaluating a name that a module does not have is an \<^verbatim>\<open>AttributeError\<close>.
\<close>

datatype 'r binding = Unbound | Pending string | Bound "pyval list \<Rightarrow> kwargs \<Rightarrow> error + 'r"

record 'r lapack =
  self_function :: string
  self_turbo :: bool
  self_f :: "'r binding"

type_synonym 'r namespace = "string \<Rightarrow> (pyval list \<Rightarrow> kwargs \<Rightarrow> error + 'r) option"

definition lapack_init :: "'r namespace \<Rightarrow> string \<Rightarrow> string option \<Rightarrow> bool \<Rightarrow> 'r lapack" where
  "lapack_init numba_module function numba turbo =
     (let self = \<lparr> self_function = function, self_turbo = turbo, self_f = Unbound \<rparr>
      in case numba of
           None \<Rightarrow> self
         | Some name \<Rightarrow>
             (case numba_module name of
                None \<Rightarrow> self
              | Some r \<Rightarrow> self\<lparr>self_f := Bound r, self_function := name\<rparr>))"

text \<open>\<^verbatim>\<open>lapack(function)\<close>: the defaults \<^verbatim>\<open>numba = None\<close> and \<^verbatim>\<open>turbo = True\<close>.\<close>

definition lapack_default :: "'r namespace \<Rightarrow> string \<Rightarrow> 'r lapack" where
  "lapack_default numba_module function = lapack_init numba_module function None True"

definition first_dtype :: "pyval list \<Rightarrow> kwargs \<Rightarrow> error + dtype" where
  "first_dtype a kw =
     (if length a > 0 then dtype_of (a ! 0)
      else (case kw of [] \<Rightarrow> Inl StopIteration | (k, v) # rest \<Rightarrow> dtype_of v))"

text \<open>
  \<^verbatim>\<open>__call__\<close> returns or raises, and leaves the object in a new state either way.
\<close>

definition lapack_call ::
  "'r namespace \<Rightarrow> 'r lapack \<Rightarrow> pyval list \<Rightarrow> kwargs \<Rightarrow> (error + 'r) \<times> 'r lapack" where
  "lapack_call lapack_module self a kw =
     (let bind =
        (case self_f self of
           Unbound \<Rightarrow>
             (case first_dtype a kw of
                Inl e \<Rightarrow> (Some e, self)
              | Inr dtype \<Rightarrow>
                  (let name =
                     (if dtype = Float32 \<and> self_turbo self then ''s'' @ self_function self
                      else if dtype = Float64 \<or> \<not> self_turbo self then ''d'' @ self_function self
                      else if dtype = Complex64 then ''c'' @ self_function self
                      else ''z'' @ self_function self)
                   in case lapack_module name of
                        None \<Rightarrow> (Some AttributeError, self\<lparr>self_f := Pending (''_lapack.'' @ name)\<rparr>)
                      | Some r \<Rightarrow> (None, self\<lparr>self_f := Bound r\<rparr>)))
         | _ \<Rightarrow> (None, self))
      in case bind of
           (Some e, self1) \<Rightarrow> (Inl e, self1)
         | (None, self1) \<Rightarrow>
             (case self_f self1 of
                Bound r \<Rightarrow> (r a kw, self1)
              | _ \<Rightarrow> (Inl TypeError, self1)))"

text \<open>A module with the real routines of \<^verbatim>\<open>getrf\<close> in single and double precision.\<close>

definition example_lapack :: "string namespace" where
  "example_lapack name =
     (if name = ''sgetrf'' then Some (\<lambda>a kw. Inr ''single'')
      else if name = ''dgetrf'' then Some (\<lambda>a kw. Inr ''double'')
      else None)"

text \<open>
  The closures that \<^verbatim>\<open>process\<close> builds for four configurations: the string \<^verbatim>\<open>"full"\<close>, and
  dictionaries with the keys \<^verbatim>\<open>X\<close>, \<^verbatim>\<open>A\<close>, with \<^verbatim>\<open>X\<close>, \<^verbatim>\<open>A\<close>, \<^verbatim>\<open>B\<close> and with \<^verbatim>\<open>X\<close>, \<^verbatim>\<open>A\<close>, \<^verbatim>\<open>B\<close>, \<^verbatim>\<open>C\<close>; all with
  \<^verbatim>\<open>square = False\<close>.
\<close>

definition guard_full :: "'r pyfunction \<Rightarrow> 'r guard" where
  "guard_full f =
     \<lparr> memcheck = [(''X'', UFn usage_full)], memory_length = 1, memory_keys = [''X''],
       function_signature = signature_text f, function_args = parameters f,
       wrapped = body f, square = False \<rparr>"

definition guard_two :: "'r pyfunction \<Rightarrow> 'r guard" where
  "guard_two f =
     \<lparr> memcheck = [(''X'', UFn usage_full), (''A'', UFn usage_same)],
       memory_length = 2, memory_keys = [''X'', ''A''],
       function_signature = signature_text f, function_args = parameters f,
       wrapped = body f, square = False \<rparr>"

definition guard_three :: "'r pyfunction \<Rightarrow> 'r guard" where
  "guard_three f =
     \<lparr> memcheck = [(''X'', UFn usage_full), (''A'', UFn usage_same), (''B'', UFn usage_triu)],
       memory_length = 3, memory_keys = [''X'', ''A'', ''B''],
       function_signature = signature_text f, function_args = parameters f,
       wrapped = body f, square = False \<rparr>"

definition guard_four :: "'r pyfunction \<Rightarrow> 'r guard" where
  "guard_four f =
     \<lparr> memcheck = [(''X'', UFn usage_full), (''A'', UFn usage_same), (''B'', UFn usage_triu),
                   (''C'', UFn usage_squared)],
       memory_length = 4, memory_keys = [''X'', ''A'', ''B'', ''C''],
       function_signature = signature_text f, function_args = parameters f,
       wrapped = body f, square = False \<rparr>"

text \<open>A function whose body runs out of memory.\<close>

definition out_of_memory :: "string list \<Rightarrow> string \<Rightarrow> unit pyfunction" where
  "out_of_memory ps sig =
     \<lparr> parameters = ps, signature_text = sig,
       body = (\<lambda>a kw. Inl (MemoryError (Message ''Unable to allocate array''))) \<rparr>"

text \<open>
  How the keyword dictionary can change between the resolution of the flags and the call:
  a key keeps its value, or an array or matrix under it is replaced by an array or matrix.
\<close>

definition is_array :: "pyval \<Rightarrow> bool" where
  "is_array v = (case v of NdArray t sh \<Rightarrow> True | Matrix t n p \<Rightarrow> True | _ \<Rightarrow> False)"

definition kw_step :: "kwargs \<Rightarrow> kwargs \<Rightarrow> bool" where
  "kw_step kw kw' =
     (\<forall>k. map_of kw' k = map_of kw k
          \<or> (\<exists>v v'. map_of kw k = Some v \<and> is_array v \<and> map_of kw' k = Some v' \<and> is_array v'))"

section \<open>Properties\<close>

subsection \<open>The memory estimate\<close>

text \<open>
  C6. Under the usage pattern \<^verbatim>\<open>full\<close> the estimate for a shape \<open>(n, p)\<close> and an element type
  of byte width \<open>b\<close> is \<open>floor ((n*p + min (n\<^sup>2) (p\<^sup>2)) * b / 2^20)\<close> megabytes, for all integers
  \<open>n\<close> and \<open>p\<close>; a shape \<open>(k,)\<close> is estimated as \<open>(1, k)\<close>; and every byte width is the width
  of some element type. The minimum is the spec's reading of \<^verbatim>\<open>_min\<close>.
\<close>

theorem memory_full_estimate:
  "map_of memory_usage ''full'' = Some usage_full
   \<and> memory [n, p] (Some dt) (Some usage_full)
       = Inr \<lfloor>real_of_int ((n * p + min (n\<^sup>2) (p\<^sup>2)) * itemsize dt) / 2 ^ 20\<rfloor>
   \<and> memory [k] (Some dt) (Some usage_full) = memory [1, k] (Some dt) (Some usage_full)
   \<and> itemsize (NpBytes b) = int b"
proof -
  have fl: "\<lfloor>real_of_int m / 2 ^ 20\<rfloor> = m div 2 ^ 20" for m :: int
    using floor_divide_of_int_eq [of m "2 ^ 20"] by simp
  have table: "map_of memory_usage ''full'' = Some usage_full"
    by (simp add: memory_usage_def)
  have two: "memory [n, p] (Some dt) (Some usage_full)
          = Inr (((n * p + min (n\<^sup>2) (p\<^sup>2)) * itemsize dt) div 2 ^ 20)"
    by (simp add: memory_def usage_full_def numba_min_def np_dtype_def drop_bit_eq_div)
  have one: "memory [k] (Some dt) (Some usage_full) = memory [1, k] (Some dt) (Some usage_full)"
    by (simp add: memory_def)
  have width: "itemsize (NpBytes b) = int b"
    by simp
  show ?thesis
    unfolding fl using table two one width by blast
qed

subsection \<open>Classification of one argument\<close>

text \<open>
  The square check of lines 57 to 60 comes before the type policy: with \<^verbatim>\<open>square\<close> set, a 2
  by 3 array is rejected whatever its element type is.
\<close>

lemma arg_process_int64_nonsquare:
  "arg_process 9223372036854775807 (NdArray Int64 [2, 3]) True = Inl AssertionError"
  by (simp add: arg_process_def)

text \<open>
  C7. For an array that passes the square check (\<^verbatim>\<open>square\<close> is false or \<open>n = p\<close>): a
  two-dimensional array of 64-bit integers, signed or unsigned, is to be converted to the
  platform's \<^verbatim>\<open>maxFloat\<close>, which is \<^verbatim>\<open>float64\<close> on a 64-bit platform, at the cost that \<^verbatim>\<open>memory\<close>
  gives for the pattern \<^verbatim>\<open>same\<close>, the shape of the array and the byte width of \<^verbatim>\<open>maxFloat\<close>; a
  two-dimensional array of type \<^verbatim>\<open>float32\<close>, \<^verbatim>\<open>maxFloat\<close> or a complex floating type costs 0 and
  gets \<^verbatim>\<open>False\<close>, no conversion. \<^verbatim>\<open>arg_process\<close> returns nothing but this pair, so the array is
  as it was.
\<close>

theorem arg_process_dtype_policy:
  assumes "sq \<longrightarrow> n = p"
    and "i = Int64 \<or> i = UInt64"
    and "t = Float32 \<or> t = maxFloat maxsize \<or> is_complexfloating t"
  shows "memory [n, p] (Some (maxFloat maxsize)) (Some usage_same)
           = Inr (drop_bit 20 (n * p * itemsize (maxFloat maxsize)))
         \<and> arg_process maxsize (NdArray i [n, p]) sq
           = Inr (drop_bit 20 (n * p * itemsize (maxFloat maxsize)), DtType (maxFloat maxsize))
         \<and> arg_process maxsize (NdArray t [n, p]) sq = Inr (0, DtFalse)
         \<and> (is64 maxsize \<longrightarrow> maxFloat maxsize = Float64)"
  using assms
  by (auto simp add: arg_process_def memory_def usage_same_def f_same_memory_def np_dtype_def
      maxFloat_def)

theorem arg_process_dtype_policy_witness:
  "is64 9223372036854775807
   \<and> arg_process 9223372036854775807 (NdArray Int64 [1024, 1024]) True = Inr (8, DtType Float64)
   \<and> arg_process 9223372036854775807 (NdArray Complex64 [1024, 1024]) True = Inr (0, DtFalse)"
  using arg_process_dtype_policy [of True 1024 1024 Int64 Complex64 9223372036854775807]
  by (simp add: maxFloat_def is64_def)

text \<open>
  C10. A one-dimensional array of any element type is not classified: the cost is 0, the
  second component is \<^verbatim>\<open>None\<close>, and neither the square check nor the type check is reached,
  whatever \<^verbatim>\<open>square\<close> is.
\<close>

theorem arg_process_one_dimensional:
  "arg_process maxsize (NdArray t [k]) sq = Inr (0, DtNone)"
  by (simp add: arg_process_def)

subsection \<open>Decoration\<close>

text \<open>
  C5. The claim expects a working wrapper when \<^verbatim>\<open>memcheck\<close> is \<^verbatim>\<open>None\<close>. Lines 97 and 41 provide
  for that value, but line 109 takes its length: decorating any function fails with
  \<^verbatim>\<open>TypeError\<close>.
\<close>

theorem process_without_memcheck:
  "process f McNone sq = Inl TypeError"
  by (simp add: process_def process_memcheck_def decorate_def)

subsection \<open>The text of the NameError\<close>

text \<open>
  C4. A keyword \<^verbatim>\<open>foo\<close> that the function \<^verbatim>\<open>f(X, y)\<close> does not declare is refused with
  \<^verbatim>\<open>NameError\<close>, and the text ends with the signature, but it holds the characters \<^verbatim>\<open>{x}\<close>
  in place of the keyword: \<^verbatim>\<open>foo\<close> does not occur in it.
\<close>

theorem name_error_message_lacks_key:
  "guarded_call maxsize (echo [''X'', ''y''] ''(X, y)'') (McStr ''full'') False available
       [NdArray Float32 [2, 2]] [(''foo'', PyInt 1)]
     = Inl (NameError
         ''Argument '{x}' is not recognised in function. Function accepted signature is (X, y).'')
   \<and> \<not> str_contains ''foo''
         ''Argument '{x}' is not recognised in function. Function accepted signature is (X, y).''"
proof -
  have g: "process (echo [''X'', ''y''] ''(X, y)'') (McStr ''full'') False
      = Inr \<lparr> memcheck = [(''X'', UFn usage_full)], memory_length = 1, memory_keys = [''X''],
              function_signature = ''(X, y)'', function_args = [''X'', ''y''],
              wrapped = (\<lambda>a kw. Inr (a, kw)), square = False \<rparr>"
    by (simp add: process_def process_memcheck_def decorate_def memory_usage_def echo_def)
  have call: "guarded_call maxsize (echo [''X'', ''y''] ''(X, y)'') (McStr ''full'') False available
       [NdArray Float32 [2, 2]] [(''foo'', PyInt 1)]
     = Inl (NameError
         ''Argument '{x}' is not recognised in function. Function accepted signature is (X, y).'')"
    by (simp add: guarded_call_def g and_then_def wrapper_def wrapper_prepare_def
        wrapper_admit_def wrapper_need_def wrapper_flags_def wrapper_names_def
        check_arguments_def enter_def name_error_message_def)
  have msg: "\<not> str_contains ''foo''
         ''Argument '{x}' is not recognised in function. Function accepted signature is (X, y).''"
    by simp
  show ?thesis using call msg by blast
qed

subsection \<open>The call with a 1000 by 1000 array of half precision\<close>

lemma free_50000: "free_memory 52428800000 = Inr 47000" by code_simp
lemma free_50: "free_memory 52428800 = Inr 47" by code_simp
lemma free_10: "free_memory 10485760 = Inr 9" by code_simp

lemma free_5: "free_memory 5242880 = Inr 4" by code_simp

lemma process_str:
  "map_of memory_usage u = Some mc \<Longrightarrow>
   process f (McStr u) sq
     = Inr \<lparr> memcheck = [(''X'', UFn mc)], memory_length = 1, memory_keys = [''X''],
             function_signature = signature_text f, function_args = parameters f,
             wrapped = body f, square = sq \<rparr>"
  by (simp add: process_def process_memcheck_def decorate_def)

lemma full_in_table: "map_of memory_usage ''full'' = Some usage_full"
  by (simp add: memory_usage_def)

lemma process_full: "process f (McStr ''full'') False = Inr (guard_full f)"
  by (simp add: process_str [OF full_in_table] guard_full_def)

lemma need_float16:
  assumes "function_args g \<noteq> []" "memory_keys g = [''X'']" "memory_length g = 1"
     "memcheck g = [(''X'', UFn usage_full)]" "square g = False"
  shows "wrapper_need maxsize g [NdArray Float16 [1000, 1000]] []
     = Inr \<lparr> args = [NdArray Float16 [1000, 1000]], kwargs = [(''X'', PyBool True)],
             X = NdArray Float16 [1000, 1000], otherYes = 0, duplicate = [False], need = 10,
             new_dtypes = [DtType Float32, DtNone], X_dtype = Some Float32 \<rparr>"
proof -
  have len: "Suc 0 \<le> length (function_args g)"
    using assms(1) by (cases "function_args g") simp_all
  have flags: "wrapper_flags g [NdArray Float16 [1000, 1000]] []
     = Inr \<lparr> args = [NdArray Float16 [1000, 1000]], kwargs = [(''X'', PyBool True)],
             X = NdArray Float16 [1000, 1000], otherYes = 0, duplicate = [False], need = 0,
             new_dtypes = [], X_dtype = None \<rparr>"
    using assms(1,2,3)
    by (simp add: wrapper_flags_def wrapper_names_def check_arguments_def enter_def and_then_def
        update_X_def set_all_False_def)
  have cls: "arg_process maxsize (NdArray Float16 [1000, 1000]) False = Inr (3, DtType Float32)"
    by (simp add: arg_process_def maxFloat_def memory_def f_same_memory_def usage_same_def
        np_dtype_def drop_bit_eq_div)
  have other: "arg_process maxsize (PyBool True) False = Inr (0, DtNone)"
    by (simp add: arg_process_def)
  have cost: "memory [1000, 1000] (Some Float32) (Some usage_full) = Inr 7"
    by (simp add: memory_def usage_full_def numba_min_def np_dtype_def drop_bit_eq_div)
  show ?thesis
    using assms(2,4,5)
    by (simp add: wrapper_need_def flags and_then_def cls other cost type_of_target_def
        shape_of_def py_eq_True_def)
qed

text \<open>
  C1, as the claim states it, fails. With 50 MB available the budget is 47 MB and the call
  needs 10 MB, so the memory check lets it pass; the call then ends in the \<^verbatim>\<open>TypeError\<close> of
  line 227, which assigns to an item of the tuple \<^verbatim>\<open>args\<close>, and it ends there with 50000 MB
  as well.
\<close>

theorem float16_call_at_50_MB:
  "free_memory (50 * 2 ^ 20) = Inr 47
   \<and> guarded_admit 9223372036854775807 (echo [''X''] ''(X)'') (McStr ''full'') False (50 * 2 ^ 20)
       [NdArray Float16 [1000, 1000]] []
     = Inr \<lparr> args = [NdArray Float16 [1000, 1000]], kwargs = [(''X'', PyBool True)],
             X = NdArray Float16 [1000, 1000], otherYes = 0, duplicate = [False], need = 10,
             new_dtypes = [DtType Float32, DtNone], X_dtype = Some Float32 \<rparr>
   \<and> guarded_call 9223372036854775807 (echo [''X''] ''(X)'') (McStr ''full'') False (50 * 2 ^ 20)
       [NdArray Float16 [1000, 1000]] []
     = Inl TypeError
   \<and> guarded_call 9223372036854775807 (echo [''X''] ''(X)'') (McStr ''full'') False
       (50000 * 2 ^ 20) [NdArray Float16 [1000, 1000]] []
     = Inl TypeError"
proof -
  let ?g = "guard_full (echo [''X''] ''(X)'')"
  have n: "wrapper_need 9223372036854775807 ?g [NdArray Float16 [1000, 1000]] []
     = Inr \<lparr> args = [NdArray Float16 [1000, 1000]], kwargs = [(''X'', PyBool True)],
             X = NdArray Float16 [1000, 1000], otherYes = 0, duplicate = [False], need = 10,
             new_dtypes = [DtType Float32, DtNone], X_dtype = Some Float32 \<rparr>"
    by (rule need_float16) (simp_all add: guard_full_def echo_def)
  have admit: "guarded_admit 9223372036854775807 (echo [''X''] ''(X)'') (McStr ''full'') False
       (50 * 2 ^ 20) [NdArray Float16 [1000, 1000]] []
     = Inr \<lparr> args = [NdArray Float16 [1000, 1000]], kwargs = [(''X'', PyBool True)],
             X = NdArray Float16 [1000, 1000], otherYes = 0, duplicate = [False], need = 10,
             new_dtypes = [DtType Float32, DtNone], X_dtype = Some Float32 \<rparr>"
    by (simp add: guarded_admit_def process_full and_then_def wrapper_admit_def n
        confirm_memory_def free_50)
  have c50: "guarded_call 9223372036854775807 (echo [''X''] ''(X)'') (McStr ''full'') False
       (50 * 2 ^ 20) [NdArray Float16 [1000, 1000]] [] = Inl TypeError"
    by (simp add: guarded_call_def process_full and_then_def wrapper_def wrapper_prepare_def
        wrapper_admit_def n confirm_memory_def free_50 astype_def tuple_setitem_def)
  have c50000: "guarded_call 9223372036854775807 (echo [''X''] ''(X)'') (McStr ''full'') False
       (50000 * 2 ^ 20) [NdArray Float16 [1000, 1000]] [] = Inl TypeError"
    by (simp add: guarded_call_def process_full and_then_def wrapper_def wrapper_prepare_def
        wrapper_admit_def n confirm_memory_def free_50000 astype_def tuple_setitem_def)
  have f: "free_memory (50 * 2 ^ 20) = Inr 47"
    by (simp add: free_50)
  show ?thesis using f admit c50 c50000 by blast
qed

text \<open>
  C1, amended. A function guarded with the pattern \<^verbatim>\<open>full\<close> and \<^verbatim>\<open>square = False\<close> is called with a
  1000 by 1000 array of type \<^verbatim>\<open>float16\<close> as its only argument. The call needs 10 MB (3 MB for
  the conversion to \<^verbatim>\<open>float32\<close> and 7 MB for the pattern at 4 bytes an element) and plans the
  conversion of the array to \<^verbatim>\<open>float32\<close>. The memory check passes with 50000 MB available and
  with 50 MB available. With 10 MB available the budget is 9 MB and the call fails with the
  \<^verbatim>\<open>MemoryError\<close> that reports 10 MB required, 9 MB free and 1 MB missing.
\<close>

theorem float16_call_requirement:
  assumes "parameters f \<noteq> []"
  shows "guarded_admit maxsize f (McStr ''full'') False (50000 * 2 ^ 20)
             [NdArray Float16 [1000, 1000]] []
           = Inr \<lparr> args = [NdArray Float16 [1000, 1000]], kwargs = [(''X'', PyBool True)],
                   X = NdArray Float16 [1000, 1000], otherYes = 0, duplicate = [False],
                   need = 10, new_dtypes = [DtType Float32, DtNone], X_dtype = Some Float32 \<rparr>
         \<and> guarded_admit maxsize f (McStr ''full'') False (50 * 2 ^ 20)
             [NdArray Float16 [1000, 1000]] []
           = Inr \<lparr> args = [NdArray Float16 [1000, 1000]], kwargs = [(''X'', PyBool True)],
                   X = NdArray Float16 [1000, 1000], otherYes = 0, duplicate = [False],
                   need = 10, new_dtypes = [DtType Float32, DtNone], X_dtype = Some Float32 \<rparr>
         \<and> guarded_call maxsize f (McStr ''full'') False (10 * 2 ^ 20)
             [NdArray Float16 [1000, 1000]] []
           = Inl (MemoryError (Requires 10 9 1))"
proof -
  have n: "wrapper_need maxsize (guard_full f) [NdArray Float16 [1000, 1000]] []
     = Inr \<lparr> args = [NdArray Float16 [1000, 1000]], kwargs = [(''X'', PyBool True)],
             X = NdArray Float16 [1000, 1000], otherYes = 0, duplicate = [False], need = 10,
             new_dtypes = [DtType Float32, DtNone], X_dtype = Some Float32 \<rparr>"
    using assms by (intro need_float16) (simp_all add: guard_full_def)
  have a1: "guarded_admit maxsize f (McStr ''full'') False (50000 * 2 ^ 20)
             [NdArray Float16 [1000, 1000]] []
           = Inr \<lparr> args = [NdArray Float16 [1000, 1000]], kwargs = [(''X'', PyBool True)],
                   X = NdArray Float16 [1000, 1000], otherYes = 0, duplicate = [False],
                   need = 10, new_dtypes = [DtType Float32, DtNone], X_dtype = Some Float32 \<rparr>"
    by (simp add: guarded_admit_def process_full and_then_def wrapper_admit_def n
        confirm_memory_def free_50000)
  have a2: "guarded_admit maxsize f (McStr ''full'') False (50 * 2 ^ 20)
             [NdArray Float16 [1000, 1000]] []
           = Inr \<lparr> args = [NdArray Float16 [1000, 1000]], kwargs = [(''X'', PyBool True)],
                   X = NdArray Float16 [1000, 1000], otherYes = 0, duplicate = [False],
                   need = 10, new_dtypes = [DtType Float32, DtNone], X_dtype = Some Float32 \<rparr>"
    by (simp add: guarded_admit_def process_full and_then_def wrapper_admit_def n
        confirm_memory_def free_50)
  have a3: "guarded_call maxsize f (McStr ''full'') False (10 * 2 ^ 20)
             [NdArray Float16 [1000, 1000]] []
           = Inl (MemoryError (Requires 10 9 1))"
    by (simp add: guarded_call_def process_full and_then_def wrapper_def wrapper_prepare_def
        wrapper_admit_def n confirm_memory_def free_10)
  show ?thesis using a1 a2 a3 by blast
qed

theorem float16_call_requirement_witness:
  "parameters (echo [''X''] ''(X)'') \<noteq> []
   \<and> guarded_call 9223372036854775807 (echo [''X''] ''(X)'') (McStr ''full'') False (10 * 2 ^ 20)
       [NdArray Float16 [1000, 1000]] []
     = Inl (MemoryError (Requires 10 9 1))"
proof -
  have h: "parameters (echo [''X''] ''(X)'') \<noteq> []"
    by (simp add: echo_def)
  show ?thesis
    using h float16_call_requirement [OF h, of 9223372036854775807] by simp
qed

subsection \<open>The memory check\<close>

lemma astype_error: "astype x d = Inl e \<Longrightarrow> e = TypeError \<or> e = AttributeError"
  by (auto simp add: astype_def split: pyval.splits target.splits)

lemma convert_args_error: "convert_args js s = Inl e \<Longrightarrow> e = TypeError \<or> e = AttributeError"
proof (induction js arbitrary: s)
  case Nil
  then show ?case by simp
next
  case (Cons i js)
  then show ?case
    by (auto simp add: Let_def and_then_def tuple_setitem_def dest: astype_error
        split: if_splits sum.splits)
qed

lemma convert_kwargs_error:
  "convert_kwargs n ks s = Inl e \<Longrightarrow> e = TypeError \<or> e = AttributeError \<or> (\<exists>k. e = KeyError k)"
proof (induction ks arbitrary: n s)
  case Nil
  then show ?case by simp
next
  case (Cons k ks)
  then show ?case
    by (auto simp add: Let_def and_then_def dest: astype_error
        split: if_splits sum.splits option.splits)
qed

lemma delete_duplicates_error: "delete_duplicates l s = Inl e \<Longrightarrow> e = TypeError"
  by (induction l arbitrary: s) (auto simp add: and_then_def tuple_delitem_def split: if_splits)

lemma clean_up_error: "clean_up s = Inl e \<Longrightarrow> e = TypeError \<or> (\<exists>k. e = KeyError k)"
  by (auto simp add: clean_up_def and_then_def dest: delete_duplicates_error
      split: sum.splits option.splits)

lemma execute_error: "execute g s \<noteq> Inl (MemoryError (Requires n fr ex))"
  by (auto simp add: execute_def split: sum.splits error.splits)

lemma execute_rewraps:
  "wrapped g (args s) (kwargs s) = Inl (MemoryError m) \<Longrightarrow> execute g s = Inl (MemoryError Exhausted)"
  by (simp add: execute_def)

lemma after_admission:
  assumes "wrapper_admit maxsize g available a kw = Inr s"
  shows "wrapper maxsize g available a kw \<noteq> Inl (MemoryError (Requires n fr ex))"
proof
  assume w: "wrapper maxsize g available a kw = Inl (MemoryError (Requires n fr ex))"
  show False
  proof (cases "wrapper_prepare maxsize g available a kw")
    case (Inr s')
    with w show False by (simp add: wrapper_def and_then_def execute_error)
  next
    case (Inl e)
    with w have e: "e = MemoryError (Requires n fr ex)"
      by (simp add: wrapper_def and_then_def)
    from Inl assms show False
      unfolding e wrapper_prepare_def and_then_def
      by (auto split: sum.splits dest: convert_args_error convert_kwargs_error clean_up_error)
  qed
qed

lemma need_float32:
  assumes "function_args g \<noteq> []" "memory_keys g = [''X'']" "memory_length g = 1"
     "memcheck g = [(''X'', UFn usage_full)]" "square g = False"
  shows "wrapper_need maxsize g [NdArray Float32 [1000, 1000]] []
     = Inr \<lparr> args = [NdArray Float32 [1000, 1000]], kwargs = [(''X'', PyBool True)],
             X = NdArray Float32 [1000, 1000], otherYes = 0, duplicate = [False], need = 7,
             new_dtypes = [DtNone, DtNone], X_dtype = Some Float32 \<rparr>"
proof -
  have flags: "wrapper_flags g [NdArray Float32 [1000, 1000]] []
     = Inr \<lparr> args = [NdArray Float32 [1000, 1000]], kwargs = [(''X'', PyBool True)],
             X = NdArray Float32 [1000, 1000], otherYes = 0, duplicate = [False], need = 0,
             new_dtypes = [], X_dtype = None \<rparr>"
    using assms(1,2,3)
    by (simp add: wrapper_flags_def wrapper_names_def check_arguments_def enter_def and_then_def
        update_X_def set_all_False_def)
  have cls: "arg_process maxsize (NdArray Float32 [1000, 1000]) False = Inr (0, DtFalse)"
    by (simp add: arg_process_def)
  have other: "arg_process maxsize (PyBool True) False = Inr (0, DtNone)"
    by (simp add: arg_process_def)
  have cost: "memory [1000, 1000] (Some Float32) (Some usage_full) = Inr 7"
    by (simp add: memory_def usage_full_def numba_min_def np_dtype_def drop_bit_eq_div)
  show ?thesis
    using assms(2,4,5)
    by (simp add: wrapper_need_def flags and_then_def cls other cost dtype_of_def
        shape_of_def py_eq_True_def)
qed

lemma prepare_float32:
  assumes "function_args g \<noteq> []" "memory_keys g = [''X'']" "memory_length g = 1"
     "memcheck g = [(''X'', UFn usage_full)]" "square g = False"
  shows "wrapper_prepare maxsize g (50 * 2 ^ 20) [NdArray Float32 [1000, 1000]] []
     = Inr \<lparr> args = [NdArray Float32 [1000, 1000]], kwargs = [],
             X = NdArray Float32 [1000, 1000], otherYes = 0, duplicate = [False], need = 7,
             new_dtypes = [DtNone, DtNone], X_dtype = Some Float32 \<rparr>"
  by (simp add: wrapper_prepare_def wrapper_admit_def need_float32 [OF assms] and_then_def
      confirm_memory_def free_50 clean_up_def)

text \<open>
  C2. Take a call that reaches the memory check with a requirement \<^verbatim>\<open>need > 0\<close>, and let \<open>free\<close>
  be the available memory times \<^verbatim>\<open>MAX_MEMORY\<close>, in megabytes. The call fails with the
  \<^verbatim>\<open>MemoryError\<close> that reports \<^verbatim>\<open>need\<close>, \<open>free\<close> and \<^verbatim>\<open>need - free\<close> exactly when \<^verbatim>\<open>need > free\<close>;
  otherwise the check passes and the call raises no error of that form at all. When the
  wrapped function is reached and raises a \<^verbatim>\<open>MemoryError\<close>, the call fails with the generic
  \<^verbatim>\<open>MemoryError\<close> of line 248.
\<close>

theorem memory_check:
  assumes "wrapper_need maxsize g a kw = Inr s"
    and "need s > 0"
    and "free_memory available = Inr free"
  shows "(wrapper maxsize g available a kw
            = Inl (MemoryError (Requires (need s) free (need s - free)))) = (need s > free)
         \<and> (need s \<le> free \<longrightarrow>
              wrapper_admit maxsize g available a kw = Inr s
              \<and> wrapper maxsize g available a kw \<noteq> Inl (MemoryError (Requires n fr ex)))
         \<and> (wrapper_prepare maxsize g available a kw = Inr s'
              \<and> wrapped g (args s') (kwargs s') = Inl (MemoryError m) \<longrightarrow>
              wrapper maxsize g available a kw = Inl (MemoryError Exhausted))"
proof -
  have admit: "wrapper_admit maxsize g available a kw =
      (if need s > free then Inl (MemoryError (Requires (need s) free (need s - free))) else Inr s)"
    using assms by (simp add: wrapper_admit_def and_then_def confirm_memory_def)
  have refused: "need s > free \<Longrightarrow> wrapper maxsize g available a kw
            = Inl (MemoryError (Requires (need s) free (need s - free)))"
    by (simp add: wrapper_def wrapper_prepare_def admit and_then_def)
  have admitted: "wrapper_admit maxsize g available a kw = Inr s" if "need s \<le> free"
    using that by (simp add: admit)
  have passed: "wrapper maxsize g available a kw \<noteq> Inl (MemoryError (Requires n' fr' ex'))"
    if "need s \<le> free" for n' fr' ex'
    using after_admission [OF admitted [OF that]] .
  have rewrap: "wrapper maxsize g available a kw = Inl (MemoryError Exhausted)"
    if "wrapper_prepare maxsize g available a kw = Inr s'"
      and "wrapped g (args s') (kwargs s') = Inl (MemoryError m)"
    using that by (simp add: wrapper_def and_then_def execute_rewraps)
  have iff: "(wrapper maxsize g available a kw
            = Inl (MemoryError (Requires (need s) free (need s - free)))) = (need s > free)"
    using refused passed by (cases "need s > free") auto
  show ?thesis
    using iff admitted passed rewrap by blast
qed

theorem memory_check_witness:
  "wrapper 9223372036854775807 (guard_full (out_of_memory [''X''] ''(X)'')) (5 * 2 ^ 20)
       [NdArray Float32 [1000, 1000]] []
     = Inl (MemoryError (Requires 7 4 3))
   \<and> wrapper 9223372036854775807 (guard_full (out_of_memory [''X''] ''(X)'')) (50 * 2 ^ 20)
       [NdArray Float32 [1000, 1000]] []
     = Inl (MemoryError Exhausted)"
proof -
  let ?g = "guard_full (out_of_memory [''X''] ''(X)'')"
  let ?s = "\<lparr> args = [NdArray Float32 [1000, 1000]], kwargs = [(''X'', PyBool True)],
             X = NdArray Float32 [1000, 1000], otherYes = 0, duplicate = [False], need = 7,
             new_dtypes = [DtNone, DtNone], X_dtype = Some Float32 \<rparr>"
  let ?s' = "\<lparr> args = [NdArray Float32 [1000, 1000]], kwargs = [],
             X = NdArray Float32 [1000, 1000], otherYes = 0, duplicate = [False], need = 7,
             new_dtypes = [DtNone, DtNone], X_dtype = Some Float32 \<rparr>"
  have n: "wrapper_need 9223372036854775807 ?g [NdArray Float32 [1000, 1000]] [] = Inr ?s"
    by (rule need_float32) (simp_all add: guard_full_def out_of_memory_def)
  have p: "wrapper_prepare 9223372036854775807 ?g (50 * 2 ^ 20) [NdArray Float32 [1000, 1000]] []
      = Inr ?s'"
    by (rule prepare_float32) (simp_all add: guard_full_def out_of_memory_def)
  have pos: "need ?s > 0" by simp
  have raises: "wrapped ?g (args ?s') (kwargs ?s')
      = Inl (MemoryError (Message ''Unable to allocate array''))"
    by (simp add: guard_full_def out_of_memory_def)
  show ?thesis
    using memory_check [OF n pos free_5, of 0 0 0 ?s' "Message ''Unable to allocate array''"]
      memory_check [OF n pos free_50, of 0 0 0 ?s' "Message ''Unable to allocate array''"]
      p raises
    by simp
qed

subsection \<open>The keyword dictionary between the flags and the call\<close>

lemma kw_stepD:
  "kw_step kw kw' \<Longrightarrow>
     map_of kw' k = map_of kw k
     \<or> (\<exists>v v'. map_of kw k = Some v \<and> is_array v \<and> map_of kw' k = Some v' \<and> is_array v')"
  unfolding kw_step_def by (erule allE [of _ k])

lemma kw_step_refl: "kw_step kw kw"
  by (simp add: kw_step_def)

lemma kw_step_trans:
  assumes a: "kw_step kw1 kw2" and b: "kw_step kw2 kw3"
  shows "kw_step kw1 kw3"
  unfolding kw_step_def
proof
  fix k
  show "map_of kw3 k = map_of kw1 k
     \<or> (\<exists>v v'. map_of kw1 k = Some v \<and> is_array v \<and> map_of kw3 k = Some v' \<and> is_array v')"
    using kw_stepD [OF a, of k] kw_stepD [OF b, of k] by auto
qed

lemma kw_step_update:
  "map_of kw k = Some v \<Longrightarrow> is_array v \<Longrightarrow> is_array v' \<Longrightarrow> kw_step kw (AList.update k v' kw)"
  by (simp add: kw_step_def update_conv')

lemma kw_step_bool:
  assumes "kw_step kw kw'" and "map_of kw k = Some (PyBool b)"
  shows "map_of kw' k = Some (PyBool b)"
  using kw_stepD [OF assms(1), of k] assms(2) by (auto simp add: is_array_def)

lemma kw_step_not_True:
  assumes "kw_step kw kw'" and "map_of kw k \<noteq> Some (PyBool True)"
  shows "map_of kw' k \<noteq> Some (PyBool True)"
  using kw_stepD [OF assms(1), of k] assms(2) by (auto simp add: is_array_def)

lemma matrix_to_array_is_array: "is_array (matrix_to_array t n p)"
  by (simp add: matrix_to_array_def is_array_def)

lemma astype_is_array: "astype x d = Inr v \<Longrightarrow> is_array x \<and> is_array v"
  by (auto simp add: astype_def is_array_def split: pyval.splits target.splits)

lemma classify_args_kwargs:
  "classify_args maxsize sq js s = Inr s' \<Longrightarrow> kwargs s' = kwargs s"
proof (induction js arbitrary: s)
  case Nil
  then show ?case by simp
next
  case (Cons i js)
  then show ?case
    by (fastforce simp add: and_then_def tuple_setitem_def
        split: sum.splits pyval.splits if_splits prod.splits)
qed

lemma classify_kwargs_step:
  "classify_kwargs maxsize sq ks s = Inr s' \<Longrightarrow> kw_step (kwargs s) (kwargs s')"
proof (induction ks arbitrary: s)
  case Nil
  then show ?case by (simp add: kw_step_refl)
next
  case (Cons i ks)
  from Cons.prems obtain x0 where x0: "map_of (kwargs s) i = Some x0"
    by (auto split: option.splits)
  let ?s1 = "(case x0 of
                Matrix t n p \<Rightarrow> s\<lparr>kwargs := AList.update i (matrix_to_array t n p) (kwargs s)\<rparr>
              | _ \<Rightarrow> s)"
  have first: "kw_step (kwargs s) (kwargs ?s1)"
    using x0
    by (cases x0)
      (auto simp add: kw_step_refl is_array_def matrix_to_array_def intro!: kw_step_update)
  from Cons.prems x0 obtain n dtype where
    rest: "classify_kwargs maxsize sq ks
             (?s1\<lparr>need := need ?s1 + n, new_dtypes := new_dtypes ?s1 @ [dtype]\<rparr>) = Inr s'"
    by (auto simp add: and_then_def Let_def split: sum.splits prod.splits)
  have "kw_step (kwargs (?s1\<lparr>need := need ?s1 + n, new_dtypes := new_dtypes ?s1 @ [dtype]\<rparr>))
          (kwargs s')"
    using rest by (rule Cons.IH)
  then have "kw_step (kwargs ?s1) (kwargs s')" by simp
  with first show ?case by (rule kw_step_trans)
qed

lemma primary_cost_kwargs:
  "primary_cost g shape ks s = Inr s' \<Longrightarrow> kwargs s' = kwargs s"
proof (induction ks arbitrary: s)
  case Nil
  then show ?case by simp
next
  case (Cons i ks)
  then show ?case
    by (fastforce simp add: and_then_def
        split: sum.splits option.splits if_splits usage_val.splits)
qed

lemma confirm_memory_same: "confirm_memory available s = Inr s' \<Longrightarrow> s' = s"
  by (auto simp add: confirm_memory_def and_then_def split: if_splits sum.splits)

lemma convert_args_kwargs: "convert_args js s = Inr s' \<Longrightarrow> kwargs s' = kwargs s"
proof (induction js arbitrary: s)
  case Nil
  then show ?case by simp
next
  case (Cons i js)
  then show ?case
    by (fastforce simp add: and_then_def tuple_setitem_def Let_def split: sum.splits if_splits)
qed

lemma convert_kwargs_step:
  "convert_kwargs n ks s = Inr s' \<Longrightarrow> kw_step (kwargs s) (kwargs s')"
proof (induction ks arbitrary: n s)
  case Nil
  then show ?case by (simp add: kw_step_refl)
next
  case (Cons i ks)
  show ?case
  proof (cases "new_dtypes s ! n \<noteq> DtNone")
    case False
    with Cons.prems have "convert_kwargs (Suc n) ks s = Inr s'" by simp
    then show ?thesis by (rule Cons.IH)
  next
    case True
    with Cons.prems obtain x v where x: "map_of (kwargs s) i = Some x"
      and v: "astype x (new_dtypes s ! n) = Inr v"
      and rest: "convert_kwargs (Suc n) ks (s\<lparr>kwargs := AList.update i v (kwargs s)\<rparr>) = Inr s'"
      by (auto simp add: and_then_def Let_def split: option.splits sum.splits)
    have "kw_step (kwargs s) (AList.update i v (kwargs s))"
      using x astype_is_array [OF v] by (simp add: kw_step_update)
    moreover have "kw_step (kwargs (s\<lparr>kwargs := AList.update i v (kwargs s)\<rparr>)) (kwargs s')"
      using rest by (rule Cons.IH)
    ultimately show ?thesis by (auto intro: kw_step_trans)
  qed
qed

lemma delete_duplicates_kwargs: "delete_duplicates l s = Inr s' \<Longrightarrow> kwargs s' = kwargs s"
  by (induction l arbitrary: s)
    (auto simp add: and_then_def tuple_delitem_def split: if_splits)

lemma clean_up_kwargs: "clean_up s = Inr s' \<Longrightarrow> kwargs s' = AList.delete ''X'' (kwargs s)"
  by (auto simp add: clean_up_def and_then_def dest: delete_duplicates_kwargs
      split: sum.splits option.splits)

lemma prepare_kwargs:
  assumes "wrapper_prepare maxsize g available a kw = Inr s'"
  shows "\<exists>sf kw1. wrapper_flags g a kw = Inr sf \<and> kw_step (kwargs sf) kw1
                 \<and> kwargs s' = AList.delete ''X'' kw1"
proof -
  from assms obtain sa where admit: "wrapper_admit maxsize g available a kw = Inr sa"
    by (auto simp add: wrapper_prepare_def and_then_def split: sum.splits)
  from assms admit obtain s1 s2 where c1: "convert_args [0 ..< length (args sa)] sa = Inr s1"
    and c2: "convert_kwargs (length (args s1)) (map fst (kwargs s1)) s1 = Inr s2"
    and c3: "clean_up s2 = Inr s'"
    by (auto simp add: wrapper_prepare_def and_then_def split: sum.splits)
  from admit obtain sn where need: "wrapper_need maxsize g a kw = Inr sn"
    and conf: "confirm_memory available sn = Inr sa"
    by (auto simp add: wrapper_admit_def and_then_def split: sum.splits)
  from need obtain sf where flags: "wrapper_flags g a kw = Inr sf"
    by (auto simp add: wrapper_need_def and_then_def split: sum.splits)
  from need flags obtain t1 t2 shape where
    k1: "classify_args maxsize (square g) [0 ..< length (args sf)]
           (sf\<lparr>need := 0, new_dtypes := []\<rparr>) = Inr t1"
    and k2: "classify_kwargs maxsize (square g) (map fst (kwargs t1)) t1 = Inr t2"
    and k3: "primary_cost g shape (memory_keys g) t2 = Inr sn"
    by (auto simp add: wrapper_need_def and_then_def split: sum.splits)
  have e1: "kwargs t1 = kwargs sf"
    using classify_args_kwargs [OF k1] by simp
  have e2: "kw_step (kwargs sf) (kwargs sn)"
    using classify_kwargs_step [OF k2] primary_cost_kwargs [OF k3] e1 by simp
  have e3: "kwargs s1 = kwargs sn"
    using convert_args_kwargs [OF c1] confirm_memory_same [OF conf] by simp
  have e4: "kw_step (kwargs sf) (kwargs s2)"
    using convert_kwargs_step [OF c2] e2 e3 by (auto intro: kw_step_trans)
  show ?thesis
    using flags e4 clean_up_kwargs [OF c3] by blast
qed

subsection \<open>Resolution of the flags\<close>

lemma process_four:
  "process f (McDict [(''X'', UName ''full''), (''A'', UName ''same''), (''B'', UName ''triu''),
                      (''C'', UName ''squared'')]) False = Inr (guard_four f)"
  by (simp add: process_def process_memcheck_def decorate_def memory_usage_def guard_four_def)

lemma process_two:
  "process f (McDict [(''X'', UName ''full''), (''A'', UName ''same'')]) False = Inr (guard_two f)"
  by (simp add: process_def process_memcheck_def decorate_def memory_usage_def guard_two_def)

lemma leftovers_map_of:
  "map_of (leftovers ks kw) k =
     (case map_of kw k of
        Some v \<Rightarrow> Some v
      | None \<Rightarrow> if k \<in> set ks then Some (PyBool False) else None)"
proof (induction ks arbitrary: kw)
  case Nil
  then show ?case by (simp split: option.splits)
next
  case (Cons x ks)
  then show ?case
    by (auto simp add: update_conv' split: option.splits)
qed

lemma set_all_False_map_of:
  "map_of (set_all_False kw) k =
     map_option (\<lambda>t. case t of PyBool b \<Rightarrow> PyBool False | _ \<Rightarrow> t) (map_of kw k)"
  by (simp add: set_all_False_def map_of_map)

lemma flags_kwargs:
  assumes "wrapper_names g a kw = Inr s" and "wrapper_flags g a kw = Inr s'"
  shows "kwargs s' = leftovers (memory_keys g) (kwargs (update_X g s))"
  using assms by (auto simp add: wrapper_flags_def and_then_def Let_def)

lemma flags_default:
  assumes "wrapper_names g a kw = Inr s" and "wrapper_flags g a kw = Inr s'"
    and "otherYes s = memory_length g - 1 \<or> otherYes s = 0"
  shows "(map_of (kwargs s') k = Some (PyBool True)) = (k = ''X'')"
  using assms(3)
  by (auto simp add: flags_kwargs [OF assms(1,2)] leftovers_map_of update_X_def update_conv'
      set_all_False_map_of split: option.splits pyval.splits)

lemma flags_default_bool:
  assumes "wrapper_names g a kw = Inr s" and "wrapper_flags g a kw = Inr s'"
    and "otherYes s = memory_length g - 1 \<or> otherYes s = 0"
    and "k \<noteq> ''X''" and "map_of (kwargs s) k = Some (PyBool b)"
  shows "map_of (kwargs s') k = Some (PyBool False)"
  using assms(3,4,5)
  by (auto simp add: flags_kwargs [OF assms(1,2)] leftovers_map_of update_X_def update_conv'
      set_all_False_map_of split: option.splits pyval.splits)

lemma flags_other:
  assumes "wrapper_names g a kw = Inr s" and "wrapper_flags g a kw = Inr s'"
    and "\<not> (otherYes s = memory_length g - 1 \<or> otherYes s = 0)"
  shows "map_of (kwargs s') k =
     (if k = ''X'' then Some (PyBool False)
      else case map_of (kwargs s) k of
             Some v \<Rightarrow> Some v
           | None \<Rightarrow> if k \<in> set (memory_keys g) then Some (PyBool False) else None)"
  using assms(3)
  by (auto simp add: flags_kwargs [OF assms(1,2)] leftovers_map_of update_X_def update_conv'
      split: option.splits)

lemma check_arguments_kwargs: "check_arguments g s0 = Inr s \<Longrightarrow> kwargs s = kwargs s0"
  by (auto simp add: check_arguments_def Let_def tuple_setitem_def
      split: if_splits pyval.splits)

lemma need_classified:
  "wrapper_need maxsize g a kw =
     and_then (wrapper_classified maxsize g a kw)
       (\<lambda>t. and_then (shape_of (X t)) (\<lambda>shape. primary_cost g shape (memory_keys g) t))"
  by (simp add: wrapper_need_def wrapper_classified_def and_then_def split: sum.splits)

lemma scan_booleans_none:
  "\<forall>x \<in> set xs. \<not> is_bool x \<Longrightarrow> scan_booleans keys i xs s0 = Inr s0"
proof (induction xs arbitrary: i)
  case Nil
  then show ?case by simp
next
  case (Cons x xs)
  then show ?case by (cases x) (simp_all add: is_bool_def)
qed

lemma check_names_count: "check_names g kw oy = Inr oy' \<Longrightarrow> oy' = oy + count_True kw"
proof (induction kw arbitrary: oy)
  case Nil
  then show ?case by (simp add: count_True_def)
next
  case (Cons p kw)
  obtain x t where p: "p = (x, t)" by (cases p)
  from Cons.prems have rest: "check_names g kw
       (case t of PyBool b \<Rightarrow> oy + (if b then 1 else 0) | _ \<Rightarrow> oy) = Inr oy'"
    by (simp add: p split: if_splits)
  from Cons.IH [OF rest] show ?case
    by (cases t) (auto simp add: p count_True_def)
qed

lemma check_arguments_args: "check_arguments g s0 = Inr s \<Longrightarrow> args s = args s0"
  by (auto simp add: check_arguments_def Let_def tuple_setitem_def
      split: if_splits pyval.splits)

lemma names_plain:
  assumes "wrapper_names g a kw = Inr s" and "\<forall>x \<in> set a. \<not> is_bool x"
  shows "kwargs s = kw \<and> otherYes s = count_True kw"
proof -
  from assms(1) obtain s0 s1 oy where c: "check_arguments g (enter a kw) = Inr s0"
    and sc: "scan_booleans (memory_keys g) 0 (args s0)
               (s0\<lparr>otherYes := 0, duplicate := replicate (length (args s0)) False\<rparr>) = Inr s1"
    and cn: "check_names g (kwargs s1) (otherYes s1) = Inr oy"
    and s: "s = s1\<lparr>otherYes := oy\<rparr>"
    by (auto simp add: wrapper_names_def and_then_def split: sum.splits)
  have a0: "args s0 = a" and k0: "kwargs s0 = kw"
    using check_arguments_args [OF c] check_arguments_kwargs [OF c] by (simp_all add: enter_def)
  have "scan_booleans (memory_keys g) 0 (args s0)
               (s0\<lparr>otherYes := 0, duplicate := replicate (length (args s0)) False\<rparr>)
      = Inr (s0\<lparr>otherYes := 0, duplicate := replicate (length (args s0)) False\<rparr>)"
    using assms(2) by (simp add: a0 scan_booleans_none)
  with sc have s1: "s1 = s0\<lparr>otherYes := 0, duplicate := replicate (length (args s0)) False\<rparr>"
    by simp
  from cn have "oy = count_True kw"
    using check_names_count [of g kw 0 oy] by (simp add: s1 k0)
  then show ?thesis by (simp add: s s1 k0)
qed

lemma flags_names: "wrapper_flags g a kw = Inr s' \<Longrightarrow> \<exists>s. wrapper_names g a kw = Inr s"
  by (auto simp add: wrapper_flags_def and_then_def split: sum.splits)

lemma primary_cost_scan:
  assumes "\<forall>k \<in> set keys. \<exists>b. map_of (kwargs t) k = Some (PyBool b)"
  shows "primary_cost g shape keys t =
     (case true_flags keys (kwargs t) of
        [] \<Rightarrow> Inr t
      | k # rest \<Rightarrow> primary_cost g shape [k] t)"
  using assms
proof (induction keys)
  case Nil
  then show ?case by (simp add: true_flags_def)
next
  case (Cons k keys)
  then obtain b where b: "map_of (kwargs t) k = Some (PyBool b)" by auto
  from Cons have ih: "primary_cost g shape keys t =
     (case true_flags keys (kwargs t) of
        [] \<Rightarrow> Inr t
      | k # rest \<Rightarrow> primary_cost g shape [k] t)"
    by simp
  show ?case
  proof (cases b)
    case True
    with b show ?thesis
      by (simp add: true_flags_def py_eq_True_def and_then_def)
  next
    case False
    with b ih show ?thesis
      by (simp add: true_flags_def py_eq_True_def and_then_def)
  qed
qed

lemma classified_step:
  assumes "wrapper_flags g a kw = Inr s'" and "wrapper_classified maxsize g a kw = Inr t"
  shows "kw_step (kwargs s') (kwargs t)"
proof -
  from assms obtain t1 where
    k1: "classify_args maxsize (square g) [0 ..< length (args s')]
           (s'\<lparr>need := 0, new_dtypes := []\<rparr>) = Inr t1"
    and k2: "classify_kwargs maxsize (square g) (map fst (kwargs t1)) t1 = Inr t"
    by (auto simp add: wrapper_classified_def and_then_def split: sum.splits)
  show ?thesis
    using classify_args_kwargs [OF k1] classify_kwargs_step [OF k2] by simp
qed

lemma is_bool_iff: "is_bool v = (\<exists>b. v = PyBool b)"
  by (cases v) (simp_all add: is_bool_def)

lemma flags_bool:
  assumes "wrapper_names g a kw = Inr s" and "wrapper_flags g a kw = Inr s'"
    and "k \<in> set (memory_keys g)"
    and "map_of (kwargs s) k = None \<or> (\<exists>b. map_of (kwargs s) k = Some (PyBool b))"
  shows "\<exists>b. map_of (kwargs s') k = Some (PyBool b)"
proof -
  have "map_of (kwargs s') k = map_of (leftovers (memory_keys g) (kwargs (update_X g s))) k"
    by (simp add: flags_kwargs [OF assms(1,2)])
  then show ?thesis
    using assms(3,4)
    by (auto simp add: leftovers_map_of update_X_def update_conv' set_all_False_map_of)
qed

lemma process_three:
  "process f (McDict [(''X'', UName ''full''), (''A'', UName ''same''), (''B'', UName ''triu'')])
     False = Inr (guard_three f)"
  by (simp add: process_def process_memcheck_def decorate_def memory_usage_def guard_three_def)

lemma names_four_shape:
  "wrapper_names (guard_four (echo [''X'', ''A'', ''B'', ''C''] ''(X, A, B, C)''))
       [NdArray Float32 sh] kw
     = and_then
         (if length kw \<le> 3 then Inr () else Inl IndexError)
         (\<lambda>u. and_then
                 (check_names (guard_four (echo [''X'', ''A'', ''B'', ''C''] ''(X, A, B, C)'')) kw 0)
                 (\<lambda>oy. Inr \<lparr> args = [NdArray Float32 sh], kwargs = kw,
                              X = NdArray Float32 sh, otherYes = oy, duplicate = [False],
                              need = 0, new_dtypes = [], X_dtype = None \<rparr>))"
  by (auto simp add: wrapper_names_def check_arguments_def enter_def and_then_def guard_four_def
      echo_def split: sum.splits)

text \<open>
  C3, as the claim states it, fails, in three calls with a 2 by 2 array of type \<^verbatim>\<open>float32\<close>.
  With the declared keys \<^verbatim>\<open>X\<close>, \<^verbatim>\<open>A\<close>, \<^verbatim>\<open>B\<close>, \<^verbatim>\<open>C\<close> and the keywords \<^verbatim>\<open>A = True\<close>, \<^verbatim>\<open>B = True\<close>, two flags
  are true after the resolution. With the single key \<^verbatim>\<open>X\<close> and the keyword \<^verbatim>\<open>verbose = True\<close> of the
  function, no other flag was supplied true, yet \<^verbatim>\<open>X\<close> is \<^verbatim>\<open>False\<close> and no flag is true. With the
  keys \<^verbatim>\<open>X\<close>, \<^verbatim>\<open>A\<close>, \<^verbatim>\<open>B\<close> and a positional \<^verbatim>\<open>True\<close> for \<^verbatim>\<open>A\<close>, lines 147 and 156 count that one
  \<^verbatim>\<open>True\<close> twice, so \<^verbatim>\<open>X\<close> is \<^verbatim>\<open>True\<close> and \<^verbatim>\<open>A\<close> is reset although one flag of two was supplied true.
\<close>

theorem flags_not_exactly_one:
  "guarded_flags (echo [''X'', ''A'', ''B'', ''C''] ''(X, A, B, C)'')
       (McDict [(''X'', UName ''full''), (''A'', UName ''same''), (''B'', UName ''triu''),
                (''C'', UName ''squared'')])
       False [NdArray Float32 [2, 2]] [(''A'', PyBool True), (''B'', PyBool True)]
     = Inr [(''A'', PyBool True), (''B'', PyBool True), (''X'', PyBool False),
            (''C'', PyBool False)]
   \<and> true_flags [''X'', ''A'', ''B'', ''C'']
        [(''A'', PyBool True), (''B'', PyBool True), (''X'', PyBool False), (''C'', PyBool False)]
     = [''A'', ''B'']
   \<and> guarded_flags (echo [''X'', ''verbose''] ''(X, verbose)'') (McStr ''full'')
       False [NdArray Float32 [2, 2]] [(''verbose'', PyBool True)]
     = Inr [(''verbose'', PyBool True), (''X'', PyBool False)]
   \<and> true_flags [''X''] [(''verbose'', PyBool True), (''X'', PyBool False)] = []
   \<and> guarded_flags (echo [''X'', ''A'', ''B''] ''(X, A, B)'')
       (McDict [(''X'', UName ''full''), (''A'', UName ''same''), (''B'', UName ''triu'')])
       False [NdArray Float32 [2, 2], PyBool True] []
     = Inr [(''A'', PyBool False), (''X'', PyBool True), (''B'', PyBool False)]"
proof -
  have names: "wrapper_names (guard_four (echo [''X'', ''A'', ''B'', ''C''] ''(X, A, B, C)''))
       [NdArray Float32 [2, 2]] [(''A'', PyBool True), (''B'', PyBool True)]
     = Inr \<lparr> args = [NdArray Float32 [2, 2]], kwargs = [(''A'', PyBool True), (''B'', PyBool True)],
             X = NdArray Float32 [2, 2], otherYes = 2, duplicate = [False],
             need = 0, new_dtypes = [], X_dtype = None \<rparr>"
    by (simp add: names_four_shape and_then_def) (simp add: guard_four_def echo_def)
  have two: "guarded_flags (echo [''X'', ''A'', ''B'', ''C''] ''(X, A, B, C)'')
       (McDict [(''X'', UName ''full''), (''A'', UName ''same''), (''B'', UName ''triu''),
                (''C'', UName ''squared'')])
       False [NdArray Float32 [2, 2]] [(''A'', PyBool True), (''B'', PyBool True)]
     = Inr [(''A'', PyBool True), (''B'', PyBool True), (''X'', PyBool False),
            (''C'', PyBool False)]"
    by (simp add: guarded_flags_def process_four and_then_def wrapper_flags_def names
        update_X_def) (simp add: guard_four_def)
  have tf2: "true_flags [''X'', ''A'', ''B'', ''C'']
        [(''A'', PyBool True), (''B'', PyBool True), (''X'', PyBool False), (''C'', PyBool False)]
     = [''A'', ''B'']"
    by (simp add: true_flags_def)
  have none: "guarded_flags (echo [''X'', ''verbose''] ''(X, verbose)'') (McStr ''full'')
       False [NdArray Float32 [2, 2]] [(''verbose'', PyBool True)]
     = Inr [(''verbose'', PyBool True), (''X'', PyBool False)]"
    by (simp add: guarded_flags_def process_full and_then_def wrapper_flags_def
        wrapper_names_def check_arguments_def enter_def guard_full_def echo_def update_X_def)
  have tf0: "true_flags [''X''] [(''verbose'', PyBool True), (''X'', PyBool False)] = []"
    by (simp add: true_flags_def)
  have pos: "guarded_flags (echo [''X'', ''A'', ''B''] ''(X, A, B)'')
       (McDict [(''X'', UName ''full''), (''A'', UName ''same''), (''B'', UName ''triu'')])
       False [NdArray Float32 [2, 2], PyBool True] []
     = Inr [(''A'', PyBool False), (''X'', PyBool True), (''B'', PyBool False)]"
    by (simp add: guarded_flags_def process_three and_then_def wrapper_flags_def
        wrapper_names_def check_arguments_def enter_def guard_three_def echo_def update_X_def
        set_all_False_def)
  show ?thesis
    using two tf2 none tf0 pos by blast
qed

text \<open>
  C3, amended. Take a call without positional booleans that passes the checks of the
  arguments and of the names. After the flags have been resolved, every declared key and
  \<^verbatim>\<open>X\<close> are in the keyword dictionary. \<^verbatim>\<open>X\<close> is \<^verbatim>\<open>True\<close> exactly when the number of keywords supplied
  as \<^verbatim>\<open>True\<close> is 0 or the number of declared keys less one; then every other boolean is
  \<^verbatim>\<open>False\<close> and \<^verbatim>\<open>X\<close> is the only key that holds \<^verbatim>\<open>True\<close>. Otherwise \<^verbatim>\<open>X\<close> is \<^verbatim>\<open>False\<close> and the declared
  keys that hold \<^verbatim>\<open>True\<close> are those other than \<^verbatim>\<open>X\<close> that were supplied as \<^verbatim>\<open>True\<close>, none or several.
  When every declared key that was supplied is a boolean, the scan of line 210 adds the
  pattern of the first declared key that holds \<^verbatim>\<open>True\<close>, and of no other key, to the
  requirement, and adds nothing when no declared key holds \<^verbatim>\<open>True\<close>.
\<close>

theorem flag_resolution:
  assumes "wrapper_flags g a kw = Inr s'"
    and "\<forall>x \<in> set a. \<not> is_bool x"
  shows "map_of (kwargs s') ''X''
           = Some (PyBool (count_True kw = memory_length g - 1 \<or> count_True kw = 0))
         \<and> set (memory_keys g) \<subseteq> fst ` set (kwargs s')
         \<and> (count_True kw = memory_length g - 1 \<or> count_True kw = 0 \<longrightarrow>
              (\<forall>k. (map_of (kwargs s') k = Some (PyBool True)) = (k = ''X''))
              \<and> true_flags (memory_keys g) (kwargs s') = filter (\<lambda>k. k = ''X'') (memory_keys g))
         \<and> (\<not> (count_True kw = memory_length g - 1 \<or> count_True kw = 0) \<longrightarrow>
              true_flags (memory_keys g) (kwargs s')
                = filter (\<lambda>k. k \<noteq> ''X'' \<and> map_of kw k = Some (PyBool True)) (memory_keys g))
         \<and> (wrapper_classified maxsize g a kw = Inr t
              \<and> (\<forall>k \<in> set (memory_keys g). \<forall>v. map_of kw k = Some v \<longrightarrow> is_bool v) \<longrightarrow>
              wrapper_need maxsize g a kw
                = and_then (shape_of (X t))
                    (\<lambda>shape. case true_flags (memory_keys g) (kwargs s') of
                                [] \<Rightarrow> Inr t
                              | k # rest \<Rightarrow> primary_cost g shape [k] t))"
proof -
  from flags_names [OF assms(1)] obtain s where names: "wrapper_names g a kw = Inr s" ..
  from names_plain [OF names assms(2)] have kw: "kwargs s = kw"
    and oy: "otherYes s = count_True kw"
    by simp_all
  note kw' = flags_kwargs [OF names assms(1)]
  have x: "map_of (kwargs s') ''X''
           = Some (PyBool (count_True kw = memory_length g - 1 \<or> count_True kw = 0))"
    by (simp add: kw' leftovers_map_of update_X_def update_conv' oy)
  have keys: "set (memory_keys g) \<subseteq> fst ` set (kwargs s')"
  proof
    fix k assume "k \<in> set (memory_keys g)"
    then have "map_of (kwargs s') k \<noteq> None"
      by (simp add: kw' leftovers_map_of split: option.splits)
    then show "k \<in> fst ` set (kwargs s')"
      by (simp add: map_of_eq_None_iff)
  qed
  have d1: "\<forall>k. (map_of (kwargs s') k = Some (PyBool True)) = (k = ''X'')"
    if "count_True kw = memory_length g - 1 \<or> count_True kw = 0"
    using flags_default [OF names assms(1)] that by (simp add: oy)
  have d2: "true_flags (memory_keys g) (kwargs s') = filter (\<lambda>k. k = ''X'') (memory_keys g)"
    if "count_True kw = memory_length g - 1 \<or> count_True kw = 0"
    using d1 [OF that] by (simp add: true_flags_def)
  have o: "true_flags (memory_keys g) (kwargs s')
                = filter (\<lambda>k. k \<noteq> ''X'' \<and> map_of kw k = Some (PyBool True)) (memory_keys g)"
    if "\<not> (count_True kw = memory_length g - 1 \<or> count_True kw = 0)"
  proof -
    from that have other: "\<not> (otherYes s = memory_length g - 1 \<or> otherYes s = 0)"
      by (simp add: oy)
    show ?thesis
      unfolding true_flags_def
      by (rule filter_cong)
        (auto simp add: flags_other [OF names assms(1) other] kw split: option.splits)
  qed
  have scan: "wrapper_need maxsize g a kw
                = and_then (shape_of (X t))
                    (\<lambda>shape. case true_flags (memory_keys g) (kwargs s') of
                                [] \<Rightarrow> Inr t
                              | k # rest \<Rightarrow> primary_cost g shape [k] t)"
    if cl: "wrapper_classified maxsize g a kw = Inr t"
      and bools: "\<forall>k \<in> set (memory_keys g). \<forall>v. map_of kw k = Some v \<longrightarrow> is_bool v"
  proof -
    have same: "\<exists>b. map_of (kwargs s') k = Some (PyBool b) \<and> map_of (kwargs t) k = Some (PyBool b)"
      if "k \<in> set (memory_keys g)" for k
    proof -
      from bools that have "map_of (kwargs s) k = None
          \<or> (\<exists>b. map_of (kwargs s) k = Some (PyBool b))"
        by (cases "map_of kw k") (auto simp add: kw is_bool_iff)
      from flags_bool [OF names assms(1) that this] obtain b where
        b: "map_of (kwargs s') k = Some (PyBool b)" ..
      from kw_step_bool [OF classified_step [OF assms(1) cl] b] b show ?thesis by blast
    qed
    have tf: "true_flags (memory_keys g) (kwargs t) = true_flags (memory_keys g) (kwargs s')"
      unfolding true_flags_def
    proof (rule filter_cong)
      show "memory_keys g = memory_keys g" ..
    next
      fix k assume "k \<in> set (memory_keys g)"
      from same [OF this] show "(map_of (kwargs t) k = Some (PyBool True))
          = (map_of (kwargs s') k = Some (PyBool True))"
        by auto
    qed
    have all: "\<forall>k \<in> set (memory_keys g). \<exists>b. map_of (kwargs t) k = Some (PyBool b)"
      using same by blast
    have "primary_cost g shape (memory_keys g) t =
        (case true_flags (memory_keys g) (kwargs s') of
           [] \<Rightarrow> Inr t
         | k # rest \<Rightarrow> primary_cost g shape [k] t)" for shape
      using primary_cost_scan [OF all, of g shape] by (simp only: tf)
    then show ?thesis
      by (simp only: need_classified cl and_then_def sum.case)
  qed
  show ?thesis
    using x keys d1 d2 o scan by blast
qed

theorem flag_resolution_witness:
  "map_sum id need
      (wrapper_need 9223372036854775807
         (guard_four (echo [''X'', ''A'', ''B'', ''C''] ''(X, A, B, C)''))
         [NdArray Float32 [2000, 1000]]
         [(''A'', PyBool True), (''B'', PyBool True), (''C'', PyBool True)])
     = Inr 11
   \<and> map_sum id need
      (wrapper_need 9223372036854775807
         (guard_four (echo [''X'', ''A'', ''B'', ''C''] ''(X, A, B, C)''))
         [NdArray Float32 [2000, 1000]]
         [(''B'', PyBool True), (''C'', PyBool True)])
     = Inr 3"
proof -
  let ?g = "guard_four (echo [''X'', ''A'', ''B'', ''C''] ''(X, A, B, C)'')"
  let ?a = "[NdArray Float32 [2000, 1000]]"
  let ?kw3 = "[(''A'', PyBool True), (''B'', PyBool True), (''C'', PyBool True)]"
  let ?kw2 = "[(''B'', PyBool True), (''C'', PyBool True)]"
  let ?r3 = "[(''A'', PyBool False), (''B'', PyBool False), (''C'', PyBool False),
              (''X'', PyBool True)]"
  let ?r2 = "[(''B'', PyBool True), (''C'', PyBool True), (''X'', PyBool False),
              (''A'', PyBool False)]"
  let ?s3 = "\<lparr> args = ?a, kwargs = ?r3, X = NdArray Float32 [2000, 1000], otherYes = 3,
               duplicate = [False], need = 0, new_dtypes = [], X_dtype = None \<rparr>"
  let ?s2 = "\<lparr> args = ?a, kwargs = ?r2, X = NdArray Float32 [2000, 1000], otherYes = 2,
               duplicate = [False], need = 0, new_dtypes = [], X_dtype = None \<rparr>"
  let ?t3 = "?s3\<lparr>new_dtypes := [DtNone, DtNone, DtNone, DtNone, DtNone],
                   X_dtype := Some Float32\<rparr>"
  let ?t2 = "?s2\<lparr>new_dtypes := [DtNone, DtNone, DtNone, DtNone, DtNone],
                   X_dtype := Some Float32\<rparr>"
  have fields: "square ?g = False" "memory_keys ?g = [''X'', ''A'', ''B'', ''C'']"
    "memory_length ?g = 4"
    "memcheck ?g = [(''X'', UFn usage_full), (''A'', UFn usage_same), (''B'', UFn usage_triu),
                    (''C'', UFn usage_squared)]"
    by (simp_all add: guard_four_def)
  have n3: "wrapper_names ?g ?a ?kw3 = Inr (?s3\<lparr>kwargs := ?kw3\<rparr>)"
    by (simp add: names_four_shape and_then_def) (simp add: guard_four_def echo_def)
  have n2: "wrapper_names ?g ?a ?kw2 = Inr (?s2\<lparr>kwargs := ?kw2\<rparr>)"
    by (simp add: names_four_shape and_then_def) (simp add: guard_four_def echo_def)
  have f3: "wrapper_flags ?g ?a ?kw3 = Inr ?s3"
    by (simp add: wrapper_flags_def n3 and_then_def update_X_def set_all_False_def fields)
  have f2: "wrapper_flags ?g ?a ?kw2 = Inr ?s2"
    by (simp add: wrapper_flags_def n2 and_then_def update_X_def fields)
  have cls: "arg_process 9223372036854775807 (NdArray Float32 [2000, 1000]) False
      = Inr (0, DtFalse)"
    by (simp add: arg_process_def)
  have other: "arg_process 9223372036854775807 (PyBool c) False = Inr (0, DtNone)" for c
    by (simp add: arg_process_def)
  have c3: "wrapper_classified 9223372036854775807 ?g ?a ?kw3 = Inr ?t3"
    by (simp add: wrapper_classified_def f3 and_then_def cls other dtype_of_def fields)
  have c2: "wrapper_classified 9223372036854775807 ?g ?a ?kw2 = Inr ?t2"
    by (simp add: wrapper_classified_def f2 and_then_def cls other dtype_of_def fields)
  have nb: "\<forall>x \<in> set ?a. \<not> is_bool x"
    by (simp add: is_bool_def)
  have b3: "\<forall>k \<in> set (memory_keys ?g). \<forall>v. map_of ?kw3 k = Some v \<longrightarrow> is_bool v"
    by (simp add: fields is_bool_def)
  have b2: "\<forall>k \<in> set (memory_keys ?g). \<forall>v. map_of ?kw2 k = Some v \<longrightarrow> is_bool v"
    by (simp add: fields is_bool_def)
  have full: "memory [2000, 1000] (Some Float32) (Some usage_full) = Inr 11"
    by (simp add: memory_def usage_full_def numba_min_def np_dtype_def drop_bit_eq_div)
  have triu: "memory [2000, 1000] (Some Float32) (Some usage_triu) = Inr 3"
    by (simp add: memory_def usage_triu_def np_dtype_def drop_bit_eq_div)
  have cnt: "count_True ?kw3 = 3" "count_True ?kw2 = 2"
    by (simp_all add: count_True_def)
  have r3: "wrapper_need 9223372036854775807 ?g ?a ?kw3 = Inr (?t3\<lparr>need := 11\<rparr>)"
    using flag_resolution [OF f3 nb, of 9223372036854775807 ?t3] c3 b3
    by (simp add: cnt fields shape_of_def and_then_def true_flags_def py_eq_True_def full)
  have r2: "wrapper_need 9223372036854775807 ?g ?a ?kw2 = Inr (?t2\<lparr>need := 3\<rparr>)"
    using flag_resolution [OF f2 nb, of 9223372036854775807 ?t2] c2 b2
    by (simp add: cnt fields shape_of_def and_then_def true_flags_def py_eq_True_def triu)
  show ?thesis
    by (simp add: r3 r2)
qed

subsection \<open>Booleans in the default branch\<close>

lemma scan_booleans_bool:
  "scan_booleans keys i xs s0 = Inr s \<Longrightarrow> map_of (kwargs s0) k = Some (PyBool b) \<Longrightarrow>
   \<exists>b'. map_of (kwargs s) k = Some (PyBool b')"
proof (induction xs arbitrary: i s0 b)
  case Nil
  then show ?case by auto
next
  case (Cons x xs)
  show ?case
  proof (cases x)
    case (PyBool c)
    with Cons.prems(1) have lt: "i < length keys"
      and rest: "scan_booleans keys (Suc i) xs
           (s0\<lparr>kwargs := AList.update (keys ! i) (PyBool c) (kwargs s0),
               otherYes := otherYes s0 + (if c then 1 else 0),
               duplicate := (duplicate s0)[i := True]\<rparr>) = Inr s"
      by (auto split: if_splits)
    have "\<exists>b'. map_of (kwargs (s0\<lparr>kwargs := AList.update (keys ! i) (PyBool c) (kwargs s0),
               otherYes := otherYes s0 + (if c then 1 else 0),
               duplicate := (duplicate s0)[i := True]\<rparr>)) k = Some (PyBool b')"
      using Cons.prems(2) by (simp add: update_conv')
    then obtain b' where "map_of (kwargs (s0\<lparr>kwargs := AList.update (keys ! i) (PyBool c) (kwargs s0),
               otherYes := otherYes s0 + (if c then 1 else 0),
               duplicate := (duplicate s0)[i := True]\<rparr>)) k = Some (PyBool b')" ..
    with rest show ?thesis by (rule Cons.IH)
  next
    case PyNone
    with Cons.prems(1) have "scan_booleans keys (Suc i) xs s0 = Inr s" by simp
    then show ?thesis using Cons.prems(2) by (rule Cons.IH)
  next
    case (PyInt n)
    with Cons.prems(1) have "scan_booleans keys (Suc i) xs s0 = Inr s" by simp
    then show ?thesis using Cons.prems(2) by (rule Cons.IH)
  next
    case (PyStr t)
    with Cons.prems(1) have "scan_booleans keys (Suc i) xs s0 = Inr s" by simp
    then show ?thesis using Cons.prems(2) by (rule Cons.IH)
  next
    case (NdArray t sh)
    with Cons.prems(1) have "scan_booleans keys (Suc i) xs s0 = Inr s" by simp
    then show ?thesis using Cons.prems(2) by (rule Cons.IH)
  next
    case (Matrix t n p)
    with Cons.prems(1) have "scan_booleans keys (Suc i) xs s0 = Inr s" by simp
    then show ?thesis using Cons.prems(2) by (rule Cons.IH)
  qed
qed

lemma names_bool:
  assumes "wrapper_names g a kw = Inr s" and "map_of kw k = Some (PyBool b)"
  shows "\<exists>b'. map_of (kwargs s) k = Some (PyBool b')"
proof -
  from assms(1) obtain s0 s1 oy where c: "check_arguments g (enter a kw) = Inr s0"
    and sc: "scan_booleans (memory_keys g) 0 (args s0)
               (s0\<lparr>otherYes := 0, duplicate := replicate (length (args s0)) False\<rparr>) = Inr s1"
    and s: "s = s1\<lparr>otherYes := oy\<rparr>"
    by (auto simp add: wrapper_names_def and_then_def split: sum.splits)
  have "kwargs s0 = kw"
    using check_arguments_kwargs [OF c] by (simp add: enter_def)
  then have "map_of (kwargs (s0\<lparr>otherYes := 0, duplicate := replicate (length (args s0)) False\<rparr>)) k
      = Some (PyBool b)"
    using assms(2) by simp
  from scan_booleans_bool [OF sc this] show ?thesis by (simp add: s)
qed

text \<open>
  C9. When the count \<^verbatim>\<open>otherYes\<close> sends the wrapper into the branch that sets \<^verbatim>\<open>X\<close> to \<^verbatim>\<open>True\<close>
  and the call reaches the wrapped function, no keyword that the function receives holds
  \<^verbatim>\<open>True\<close>, and every boolean keyword of the caller other than \<^verbatim>\<open>X\<close>, declared key or not, is
  received as \<^verbatim>\<open>False\<close>.
\<close>

theorem booleans_reset:
  assumes "wrapper_names g a kw = Inr s"
    and "otherYes s = memory_length g - 1 \<or> otherYes s = 0"
    and "wrapper_prepare maxsize g available a kw = Inr s'"
  shows "(\<forall>k. map_of (kwargs s') k \<noteq> Some (PyBool True))
         \<and> (\<forall>k b. k \<noteq> ''X'' \<and> map_of kw k = Some (PyBool b) \<longrightarrow>
               map_of (kwargs s') k = Some (PyBool False))
         \<and> wrapper maxsize g available a kw = execute g s'"
proof -
  from prepare_kwargs [OF assms(3)] obtain sf kw1 where
    flags: "wrapper_flags g a kw = Inr sf" and step: "kw_step (kwargs sf) kw1"
    and final: "kwargs s' = AList.delete ''X'' kw1"
    by blast
  have none: "map_of (kwargs s') k \<noteq> Some (PyBool True)" for k
  proof (cases "k = ''X''")
    case True
    then show ?thesis by (simp add: final delete_conv')
  next
    case False
    then have "map_of (kwargs sf) k \<noteq> Some (PyBool True)"
      using flags_default [OF assms(1) flags assms(2), of k] by simp
    from kw_step_not_True [OF step this] show ?thesis
      using False by (simp add: final delete_conv')
  qed
  have reset: "map_of (kwargs s') k = Some (PyBool False)"
    if "k \<noteq> ''X''" and "map_of kw k = Some (PyBool b)" for k b
  proof -
    from names_bool [OF assms(1) that(2)] obtain b' where
      "map_of (kwargs s) k = Some (PyBool b')" ..
    from flags_default_bool [OF assms(1) flags assms(2) that(1) this]
    have "map_of (kwargs sf) k = Some (PyBool False)" .
    from kw_step_bool [OF step this] show ?thesis
      using that(1) by (simp add: final delete_conv')
  qed
  have call: "wrapper maxsize g available a kw = execute g s'"
    using assms(3) by (simp add: wrapper_def and_then_def)
  show ?thesis
    using none reset call by blast
qed

theorem booleans_reset_witness:
  "wrapper 9223372036854775807 (guard_two (echo [''X'', ''A'', ''verbose''] ''(X, A, verbose)''))
       (10 * 2 ^ 20) [NdArray Float32 [2, 2]] [(''verbose'', PyBool True)]
     = Inr ([NdArray Float32 [2, 2]], [(''verbose'', PyBool False), (''A'', PyBool False)])"
proof -
  let ?g = "guard_two (echo [''X'', ''A'', ''verbose''] ''(X, A, verbose)'')"
  let ?kw = "[(''verbose'', PyBool True)]"
  let ?s = "\<lparr> args = [NdArray Float32 [2, 2]], kwargs = ?kw,
             X = NdArray Float32 [2, 2], otherYes = 1, duplicate = [False],
             need = 0, new_dtypes = [], X_dtype = None \<rparr>"
  let ?s' = "\<lparr> args = [NdArray Float32 [2, 2]],
              kwargs = [(''verbose'', PyBool False), (''A'', PyBool False)],
              X = NdArray Float32 [2, 2], otherYes = 1, duplicate = [False],
              need = 0, new_dtypes = [DtNone, DtNone, DtNone, DtNone], X_dtype = Some Float32 \<rparr>"
  have names: "wrapper_names ?g [NdArray Float32 [2, 2]] ?kw = Inr ?s"
    by (simp add: wrapper_names_def check_arguments_def enter_def and_then_def guard_two_def
        echo_def)
  have flags: "wrapper_flags ?g [NdArray Float32 [2, 2]] ?kw
      = Inr (?s\<lparr>kwargs := [(''verbose'', PyBool False), (''X'', PyBool True),
                               (''A'', PyBool False)]\<rparr>)"
    by (simp add: wrapper_flags_def names and_then_def update_X_def set_all_False_def)
      (simp add: guard_two_def)
  have cls: "arg_process 9223372036854775807 (NdArray Float32 [2, 2]) False = Inr (0, DtFalse)"
    by (simp add: arg_process_def)
  have other: "arg_process 9223372036854775807 (PyBool c) False = Inr (0, DtNone)" for c
    by (simp add: arg_process_def)
  have cost: "memory [2, 2] (Some Float32) (Some usage_full) = Inr 0"
    by (simp add: memory_def usage_full_def numba_min_def np_dtype_def drop_bit_eq_div)
  have fields: "square ?g = False" "memory_keys ?g = [''X'', ''A'']"
    "memcheck ?g = [(''X'', UFn usage_full), (''A'', UFn usage_same)]"
    by (simp_all add: guard_two_def)
  have need: "wrapper_need 9223372036854775807 ?g [NdArray Float32 [2, 2]] ?kw
      = Inr (?s'\<lparr>kwargs := [(''verbose'', PyBool False), (''X'', PyBool True),
                                (''A'', PyBool False)]\<rparr>)"
    by (simp add: wrapper_need_def flags and_then_def cls other cost dtype_of_def shape_of_def
        py_eq_True_def fields)
  have prep: "wrapper_prepare 9223372036854775807 ?g (10 * 2 ^ 20) [NdArray Float32 [2, 2]] ?kw
      = Inr ?s'"
    by (simp add: wrapper_prepare_def wrapper_admit_def need and_then_def confirm_memory_def
        clean_up_def)
  have branch: "otherYes ?s = memory_length ?g - 1 \<or> otherYes ?s = 0"
    by (simp add: guard_two_def)
  have run: "execute ?g ?s'
      = Inr ([NdArray Float32 [2, 2]], [(''verbose'', PyBool False), (''A'', PyBool False)])"
    by (simp add: execute_def guard_two_def echo_def)
  show ?thesis
    using booleans_reset [OF names branch prep] run by simp
qed

subsection \<open>Routine dispatch\<close>

text \<open>
  C8. An object made by \<^verbatim>\<open>lapack(function)\<close>, with no \<^verbatim>\<open>numba\<close> name and \<^verbatim>\<open>turbo\<close> at its default,
  whose first call has a \<^verbatim>\<open>float32\<close> array as first argument, binds the routine
  \<^verbatim>\<open>s<function>\<close> of the module and calls it. A later call whose first argument is a \<^verbatim>\<open>float64\<close>
  array calls the same routine, and so does a later call with any arguments at all, also
  ones that have no element type: the type is not looked at again.
\<close>

theorem lapack_memoized:
  assumes "lapack_module (''s'' @ function) = Some r"
  shows "lapack_call lapack_module (lapack_default numba_module function)
             (NdArray Float32 sh # rest) kw
           = (r (NdArray Float32 sh # rest) kw,
              (lapack_default numba_module function)\<lparr>self_f := Bound r\<rparr>)
         \<and> lapack_call lapack_module ((lapack_default numba_module function)\<lparr>self_f := Bound r\<rparr>)
             (NdArray Float64 sh' # rest') kw'
           = (r (NdArray Float64 sh' # rest') kw',
              (lapack_default numba_module function)\<lparr>self_f := Bound r\<rparr>)
         \<and> lapack_call lapack_module ((lapack_default numba_module function)\<lparr>self_f := Bound r\<rparr>)
             a kw''
           = (r a kw'', (lapack_default numba_module function)\<lparr>self_f := Bound r\<rparr>)"
  using assms
  by (simp add: lapack_call_def lapack_default_def lapack_init_def first_dtype_def dtype_of_def)

theorem lapack_memoized_witness:
  "example_lapack (''s'' @ ''getrf'') = Some (\<lambda>a kw. Inr ''single'')
   \<and> fst (lapack_call example_lapack (lapack_default Map.empty ''getrf'')
            [NdArray Float32 [3, 3]] []) = Inr ''single''
   \<and> fst (lapack_call example_lapack
            (snd (lapack_call example_lapack (lapack_default Map.empty ''getrf'')
                    [NdArray Float32 [3, 3]] []))
            [NdArray Float64 [3, 3]] []) = Inr ''single''
   \<and> fst (lapack_call example_lapack (lapack_default Map.empty ''getrf'')
            [NdArray Float64 [3, 3]] []) = Inr ''double''"
proof -
  have h: "example_lapack (''s'' @ ''getrf'') = Some (\<lambda>a kw. Inr ''single'')"
    by (simp add: example_lapack_def)
  have fresh: "fst (lapack_call example_lapack (lapack_default Map.empty ''getrf'')
            [NdArray Float64 [3, 3]] []) = Inr ''double''"
    by (simp add: lapack_call_def lapack_default_def lapack_init_def first_dtype_def dtype_of_def
        example_lapack_def)
  show ?thesis
    using h fresh
      lapack_memoized [of example_lapack "''getrf''" "\<lambda>a kw. Inr ''single''" Map.empty
        "[3, 3]" "[]" "[]" "[3, 3]" "[]" "[]" "[]" "[]"]
    by simp
qed

end
